theory Spec2Isabelle
  imports Complex_Main "HOL-Library.Word"
begin

chapter \<open>The model\<close>

section \<open>Python values and errors\<close>

text \<open>
  Every exception the modelled code can raise is a value of \<open>py_error\<close>; a function
  that can raise returns \<open>py_error + 'a\<close>, with \<open>Inl\<close> the exception.
\<close>

datatype py_error =
  IndexError | KeyError | ZeroDivisionError | StructError | TypeError | ValueError
  | UnboundLocalError | NameError | RecursionError | OverflowError | Exception

text \<open>
  A Python number is an \<open>int\<close> or a \<open>float\<close>. Floats are idealised as exact
  rationals: the model does not round. The tag is kept because \<open>struct.pack\<close> tells an
  \<open>int\<close> from a \<open>float\<close> of the same value.
\<close>

datatype pynum = PInt int | PFloat rat

section \<open>Python values of the key-value form\<close>

text \<open>
  The values that occur in a key-value mapping: \<open>None\<close>, booleans, numbers, strings,
  lists and ordered dicts (an association list in key order, keys unique). A number is its
  value: Python compares an \<open>int\<close> and a \<open>float\<close> by value.
\<close>

datatype pyval =
  VNone | VBool bool | VNum rat | VStr string | VList "pyval list"
  | VDict "(string \<times> pyval) list"

text \<open>Sequencing of computations that may raise.\<close>

definition bind_err :: "py_error + 'a \<Rightarrow> ('a \<Rightarrow> py_error + 'b) \<Rightarrow> py_error + 'b" where
  "bind_err m f = (case m of Inl e \<Rightarrow> Inl e | Inr x \<Rightarrow> f x)"

fun map_err :: "('a \<Rightarrow> py_error + 'b) \<Rightarrow> 'a list \<Rightarrow> py_error + 'b list" where
  "map_err f [] = Inr []"
| "map_err f (x # xs) =
     bind_err (f x) (\<lambda>y. bind_err (map_err f xs) (\<lambda>ys. Inr (y # ys)))"




text \<open>\<open>int(x)\<close> of a number: truncation towards zero.\<close>

definition py_int :: "rat \<Rightarrow> int" where
  "py_int x = (if 0 \<le> x then \<lfloor>x\<rfloor> else \<lceil>x\<rceil>)"

section \<open>The formatting module \<open>_damo_fmt_str\<close>\<close>

text \<open>
  \<open>_damon.py\<close> parses and formats every leaf value through the module
  \<open>_damo_fmt_str\<close>, which is not among the sources. The model takes the functions of
  that module that \<open>_damon.py\<close> calls as a parameter \<open>F\<close>: a parser maps a Python value
  to a number or raises, a formatter maps a number and the flag \<open>raw\<close> to a string.
  \<open>py_str\<close> stands for \<open>'%s' % v\<close>.
\<close>

record fmt_str =
  text_to_us :: "pyval \<Rightarrow> py_error + rat"
  text_to_ms :: "pyval \<Rightarrow> py_error + rat"
  text_to_nr :: "pyval \<Rightarrow> py_error + rat"
  text_to_bytes :: "pyval \<Rightarrow> py_error + rat"
  text_to_percent :: "pyval \<Rightarrow> py_error + rat"
  text_to_permil :: "pyval \<Rightarrow> py_error + rat"
  text_to_bool :: "pyval \<Rightarrow> py_error + bool"
  text_to_nr_unit :: "pyval \<Rightarrow> py_error + (rat \<times> string)"
  format_time_us :: "rat \<Rightarrow> bool \<Rightarrow> string"
  format_time_us_exact :: "rat \<Rightarrow> bool \<Rightarrow> string"
  format_time_ms_exact :: "rat \<Rightarrow> bool \<Rightarrow> string"
  format_nr :: "rat \<Rightarrow> bool \<Rightarrow> string"
  format_sz :: "rat \<Rightarrow> bool \<Rightarrow> string"
  format_permil :: "rat \<Rightarrow> bool \<Rightarrow> string"
  py_str :: "pyval \<Rightarrow> string"

section \<open>Configuration values (\<open>_damon.py\<close>)\<close>

text \<open>
  Each class is a record; a field that the constructor passes through a parser of
  \<open>_damo_fmt_str\<close> holds a number, a field that it stores as given holds a Python value.
  A constructor is \<open>C_init\<close>; it raises when a parser does.
\<close>

record DamonIntervals =
  sample :: rat
  aggr :: rat
  ops_update :: rat




record DamonNrRegionsRange =
  minimum :: rat
  maximum :: rat




text \<open>The address region of a target; its field \<open>end\<close> is written \<open>end'\<close>.\<close>

record DamonRegion =
  start :: rat
  end' :: rat




record DamonTarget =
  name :: pyval
  pid :: pyval
  regions :: "DamonRegion list"




text \<open>
  The units of an access pattern. In the source they are the strings \<open>'percent'\<close>,
  \<open>'sample_intervals'\<close>, \<open>'usec'\<close> and \<open>'aggr_intervals'\<close>; the constructor raises on any
  other string, so a constructed pattern holds one of the two tags of each kind.
\<close>

datatype nr_accesses_unit = unit_percent | unit_sample_intervals

datatype age_unit = unit_usec | unit_aggr_intervals

record DamosAccessPattern =
  min_sz_bytes :: rat
  max_sz_bytes :: rat
  min_nr_accesses :: rat
  max_nr_accesses :: rat
  nr_accesses_unit :: nr_accesses_unit
  min_age :: rat
  max_age :: rat
  age_unit :: age_unit

text \<open>The constructor; the two-element list arguments are pairs.\<close>

definition DamosAccessPattern_init ::
  "fmt_str \<Rightarrow> pyval \<times> pyval \<Rightarrow> pyval \<times> pyval \<Rightarrow> pyval \<Rightarrow> pyval \<times> pyval \<Rightarrow> pyval
     \<Rightarrow> py_error + DamosAccessPattern"
where
  "DamosAccessPattern_init F sz_bytes_arg nr_accesses_arg nr_accesses_unit_arg age_arg
       age_unit_arg =
     bind_err (text_to_bytes F (fst sz_bytes_arg)) (\<lambda>min_sz.
     bind_err (text_to_bytes F (snd sz_bytes_arg)) (\<lambda>max_sz.
     bind_err
       (if nr_accesses_unit_arg = VStr ''percent'' then
          bind_err (text_to_percent F (fst nr_accesses_arg)) (\<lambda>a.
          bind_err (text_to_percent F (snd nr_accesses_arg)) (\<lambda>b.
          Inr (a, b, unit_percent)))
        else if nr_accesses_unit_arg = VStr ''sample_intervals'' then
          bind_err (text_to_nr F (fst nr_accesses_arg)) (\<lambda>a.
          bind_err (text_to_nr F (snd nr_accesses_arg)) (\<lambda>b.
          Inr (a, b, unit_sample_intervals)))
        else Inl Exception) (\<lambda>(min_nr, max_nr, u1).
     bind_err
       (if age_unit_arg = VStr ''usec'' then
          bind_err (text_to_us F (fst age_arg)) (\<lambda>a.
          bind_err (text_to_us F (snd age_arg)) (\<lambda>b.
          Inr (a, b, unit_usec)))
        else if age_unit_arg = VStr ''aggr_intervals'' then
          bind_err (text_to_nr F (fst age_arg)) (\<lambda>a.
          bind_err (text_to_nr F (snd age_arg)) (\<lambda>b.
          Inr (a, b, unit_aggr_intervals)))
        else Inl Exception) (\<lambda>(min_a, max_a, u2).
     Inr \<lparr>min_sz_bytes = min_sz, max_sz_bytes = max_sz,
          min_nr_accesses = min_nr, max_nr_accesses = max_nr, nr_accesses_unit = u1,
          min_age = min_a, max_age = max_a, age_unit = u2\<rparr>))))"

text \<open>\<open>DamosAccessPattern()\<close>: every region, by the default arguments.\<close>

definition DamosAccessPattern_default :: "fmt_str \<Rightarrow> py_error + DamosAccessPattern" where
  "DamosAccessPattern_default F =
     DamosAccessPattern_init F (VStr ''min'', VStr ''max'') (VStr ''min'', VStr ''max'')
       (VStr ''percent'') (VStr ''min'', VStr ''max'') (VStr ''usec'')"

definition DamosAccessPattern_eq :: "DamosAccessPattern \<Rightarrow> DamosAccessPattern \<Rightarrow> bool" where
  "DamosAccessPattern_eq self other =
     (min_sz_bytes self = min_sz_bytes other \<and> max_sz_bytes self = max_sz_bytes other \<and>
      min_nr_accesses self = min_nr_accesses other \<and>
      max_nr_accesses self = max_nr_accesses other \<and>
      nr_accesses_unit self = nr_accesses_unit other \<and>
      min_age self = min_age other \<and> max_age self = max_age other \<and>
      age_unit self = age_unit other)"


text \<open>
  \<open>intervals.aggr / intervals.sample\<close> is Python 3 true division and raises
  \<open>ZeroDivisionError\<close> on a zero divisor. The arithmetic is exact (floats are idealised as
  rationals); \<open>convert_nr_accesses_unit_arith\<close> and \<open>convert_age_unit_arith\<close> below take
  the arithmetic of the interpreter as a parameter. A conversion mutates \<open>self\<close>; the
  model returns the new pattern.
\<close>

definition convert_nr_accesses_unit ::
  "DamosAccessPattern \<Rightarrow> nr_accesses_unit \<Rightarrow> DamonIntervals
     \<Rightarrow> py_error + DamosAccessPattern"
where
  "convert_nr_accesses_unit self u intervals =
     (if nr_accesses_unit self = u then Inr self
      else if sample intervals = 0 then Inl ZeroDivisionError
      else
        let max_nr_accesses_sample_intervals = aggr intervals / sample intervals
        in if u = unit_sample_intervals then
             Inr (self\<lparr>min_nr_accesses :=
                          of_int (py_int (min_nr_accesses self *
                            max_nr_accesses_sample_intervals / 100)),
                        max_nr_accesses :=
                          of_int (py_int (max_nr_accesses self *
                            max_nr_accesses_sample_intervals / 100)),
                        nr_accesses_unit := u\<rparr>)
           else if max_nr_accesses_sample_intervals = 0 then Inl ZeroDivisionError
           else
             Inr (self\<lparr>min_nr_accesses :=
                          of_int (py_int (min_nr_accesses self * 100 /
                            max_nr_accesses_sample_intervals)),
                        max_nr_accesses :=
                          of_int (py_int (max_nr_accesses self * 100 /
                            max_nr_accesses_sample_intervals)),
                        nr_accesses_unit := u\<rparr>))"

definition convert_age_unit ::
  "DamosAccessPattern \<Rightarrow> age_unit \<Rightarrow> DamonIntervals \<Rightarrow> py_error + DamosAccessPattern"
where
  "convert_age_unit self u intervals =
     (if age_unit self = u then Inr self
      else if u = unit_usec then
        Inr (self\<lparr>min_age := min_age self * aggr intervals,
                   max_age := max_age self * aggr intervals,
                   age_unit := u\<rparr>)
      else if aggr intervals = 0 then Inl ZeroDivisionError
      else
        Inr (self\<lparr>min_age := of_int (py_int (min_age self / aggr intervals)),
                   max_age := of_int (py_int (max_age self / aggr intervals)),
                   age_unit := u\<rparr>))"

definition convert_for_units ::
  "DamosAccessPattern \<Rightarrow> nr_accesses_unit \<Rightarrow> age_unit \<Rightarrow> DamonIntervals
     \<Rightarrow> py_error + DamosAccessPattern"
where
  "convert_for_units self u1 u2 intervals =
     bind_err (convert_nr_accesses_unit self u1 intervals) (\<lambda>self'.
     convert_age_unit self' u2 intervals)"

text \<open>The conversion of a deep copy: \<open>self\<close> stays as it is.\<close>

definition converted_for_units ::
  "DamosAccessPattern \<Rightarrow> nr_accesses_unit \<Rightarrow> age_unit \<Rightarrow> DamonIntervals
     \<Rightarrow> py_error + DamosAccessPattern"
where
  "converted_for_units self u1 u2 intervals = convert_for_units self u1 u2 intervals"

definition effectively_equal ::
  "DamosAccessPattern \<Rightarrow> DamosAccessPattern \<Rightarrow> DamonIntervals \<Rightarrow> py_error + bool"
where
  "effectively_equal self other intervals =
     bind_err
       (converted_for_units self unit_sample_intervals unit_aggr_intervals intervals) (\<lambda>a.
     bind_err
       (converted_for_units other unit_sample_intervals unit_aggr_intervals intervals) (\<lambda>b.
     Inr (DamosAccessPattern_eq a b)))"


record DamosQuotas =
  time_ms :: rat
  sz_bytes :: rat
  reset_interval_ms :: rat
  weight_sz_permil :: rat
  weight_nr_accesses_permil :: rat
  weight_age_permil :: rat

definition DamosQuotas_init ::
  "fmt_str \<Rightarrow> pyval \<Rightarrow> pyval \<Rightarrow> pyval \<Rightarrow> pyval \<Rightarrow> pyval \<Rightarrow> pyval \<Rightarrow> py_error + DamosQuotas"
where
  "DamosQuotas_init F time_ms_arg sz_bytes_arg reset_interval_ms_arg weight_sz_arg
       weight_nr_accesses_arg weight_age_arg =
     bind_err (text_to_ms F time_ms_arg) (\<lambda>t.
     bind_err (text_to_bytes F sz_bytes_arg) (\<lambda>s.
     bind_err (text_to_ms F reset_interval_ms_arg) (\<lambda>r.
     bind_err (text_to_permil F weight_sz_arg) (\<lambda>ws.
     bind_err (text_to_permil F weight_nr_accesses_arg) (\<lambda>wn.
     bind_err (text_to_permil F weight_age_arg) (\<lambda>wa.
     Inr \<lparr>time_ms = t, sz_bytes = s, reset_interval_ms = r, weight_sz_permil = ws,
          weight_nr_accesses_permil = wn, weight_age_permil = wa\<rparr>))))))"

definition DamosQuotas_default :: "fmt_str \<Rightarrow> py_error + DamosQuotas" where
  "DamosQuotas_default F =
     DamosQuotas_init F (VNum 0) (VNum 0) (VStr ''max'') (VStr ''0 %'') (VStr ''0 %'')
       (VStr ''0 %'')"

definition DamosQuotas_eq :: "DamosQuotas \<Rightarrow> DamosQuotas \<Rightarrow> bool" where
  "DamosQuotas_eq self other =
     (time_ms self = time_ms other \<and> sz_bytes self = sz_bytes other \<and>
      reset_interval_ms self = reset_interval_ms other \<and>
      weight_sz_permil self = weight_sz_permil other \<and>
      weight_nr_accesses_permil self = weight_nr_accesses_permil other \<and>
      weight_age_permil self = weight_age_permil other)"



record DamosWatermarks =
  metric :: pyval
  interval_us :: rat
  high_permil :: rat
  mid_permil :: rat
  low_permil :: rat

definition DamosWatermarks_init ::
  "fmt_str \<Rightarrow> pyval \<Rightarrow> pyval \<Rightarrow> pyval \<Rightarrow> pyval \<Rightarrow> pyval \<Rightarrow> py_error + DamosWatermarks"
where
  "DamosWatermarks_init F metric_arg interval_us_arg high mid low =
     bind_err (text_to_us F interval_us_arg) (\<lambda>i.
     bind_err (text_to_permil F high) (\<lambda>h.
     bind_err (text_to_permil F mid) (\<lambda>m.
     bind_err (text_to_permil F low) (\<lambda>l.
     Inr \<lparr>metric = metric_arg, interval_us = i, high_permil = h, mid_permil = m,
          low_permil = l\<rparr>))))"

definition DamosWatermarks_default :: "fmt_str \<Rightarrow> py_error + DamosWatermarks" where
  "DamosWatermarks_default F =
     DamosWatermarks_init F (VStr ''none'') (VNum 0) (VStr ''0 %'') (VStr ''0 %'')
       (VStr ''0 %'')"

definition DamosWatermarks_eq :: "DamosWatermarks \<Rightarrow> DamosWatermarks \<Rightarrow> bool" where
  "DamosWatermarks_eq self other =
     (metric self = metric other \<and> interval_us self = interval_us other \<and>
      high_permil self = high_permil other \<and> mid_permil self = mid_permil other \<and>
      low_permil self = low_permil other)"




record DamosFilter =
  name :: pyval
  filter_type :: pyval
  memcg_path :: pyval
  matching :: bool


definition DamosFilter_to_str :: "fmt_str \<Rightarrow> DamosFilter \<Rightarrow> string" where
  "DamosFilter_to_str F self =
     (let memcg_path_str =
            (if filter_type self = VStr ''memcg''
             then ''memcg_path '' @ py_str F (memcg_path self) @ '', '' else '''')
      in ''filter_type '' @ py_str F (filter_type self) @ '', '' @ memcg_path_str @
         ''matching '' @ py_str F (VBool (matching self)))"

text \<open>\<open>__eq__\<close> of a filter compares the two strings \<open>'%s' % self\<close> and \<open>'%s' % other\<close>.\<close>

definition DamosFilter_eq :: "fmt_str \<Rightarrow> DamosFilter \<Rightarrow> DamosFilter \<Rightarrow> bool" where
  "DamosFilter_eq F self other = (DamosFilter_to_str F self = DamosFilter_to_str F other)"



record DamosStats =
  nr_tried :: int
  sz_tried :: int
  nr_applied :: int
  sz_applied :: int
  qt_exceeds :: int

record DamosTriedRegion =
  start :: int
  end' :: int
  nr_accesses :: int
  age :: int

record Damos =
  name :: pyval
  access_pattern :: DamosAccessPattern
  action :: pyval
  quotas :: DamosQuotas
  watermarks :: DamosWatermarks
  filters :: "DamosFilter list"
  stats :: "DamosStats option"
  tried_regions :: "DamosTriedRegion list option"

text \<open>
  The constructor of a scheme: an argument that is \<open>None\<close> is replaced by the default
  value of its class, which is built at that moment.
\<close>

definition Damos_init ::
  "fmt_str \<Rightarrow> pyval \<Rightarrow> DamosAccessPattern option \<Rightarrow> pyval \<Rightarrow> DamosQuotas option
     \<Rightarrow> DamosWatermarks option \<Rightarrow> DamosFilter list option \<Rightarrow> DamosStats option
     \<Rightarrow> DamosTriedRegion list option \<Rightarrow> py_error + Damos"
where
  "Damos_init F name_arg access_pattern_arg action_arg quotas_arg watermarks_arg filters_arg
       stats_arg tried_regions_arg =
     bind_err (case access_pattern_arg of
                 Some p \<Rightarrow> Inr p | None \<Rightarrow> DamosAccessPattern_default F) (\<lambda>p.
     bind_err (case quotas_arg of Some q \<Rightarrow> Inr q | None \<Rightarrow> DamosQuotas_default F) (\<lambda>q.
     bind_err (case watermarks_arg of
                 Some w \<Rightarrow> Inr w | None \<Rightarrow> DamosWatermarks_default F) (\<lambda>w.
     Inr \<lparr>Damos.name = name_arg, access_pattern = p, action = action_arg, quotas = q,
          watermarks = w,
          filters = (case filters_arg of Some fs \<Rightarrow> fs | None \<Rightarrow> []),
          stats = stats_arg, tried_regions = tried_regions_arg\<rparr>)))"

text \<open>\<open>Damos()\<close>: the scheme for monitoring only.\<close>

definition Damos_default :: "fmt_str \<Rightarrow> py_error + Damos" where
  "Damos_default F = Damos_init F (VStr ''0'') None (VStr ''stat'') None None None None None"

definition Damos_eq :: "fmt_str \<Rightarrow> Damos \<Rightarrow> Damos \<Rightarrow> bool" where
  "Damos_eq F self other =
     (Damos.name self = Damos.name other \<and>
      DamosAccessPattern_eq (access_pattern self) (access_pattern other) \<and>
      action self = action other \<and> DamosQuotas_eq (quotas self) (quotas other) \<and>
      DamosWatermarks_eq (watermarks self) (watermarks other) \<and>
      list_all2 (DamosFilter_eq F) (filters self) (filters other))"


text \<open>
  \<open>and\<close> evaluates from left to right and stops at the first false operand; the only
  operand that can raise is the comparison of the access patterns.
\<close>

definition Damos_effectively_equal ::
  "fmt_str \<Rightarrow> Damos \<Rightarrow> Damos \<Rightarrow> DamonIntervals \<Rightarrow> py_error + bool" where
  "Damos_effectively_equal F self other intervals =
     bind_err (effectively_equal (access_pattern self) (access_pattern other) intervals)
       (\<lambda>b. Inr (b \<and> action self = action other \<and>
                  DamosQuotas_eq (quotas self) (quotas other) \<and>
                  DamosWatermarks_eq (watermarks self) (watermarks other) \<and>
                  list_all2 (DamosFilter_eq F) (filters self) (filters other)))"


definition is_monitoring_scheme :: "fmt_str \<Rightarrow> Damos \<Rightarrow> DamonIntervals \<Rightarrow> py_error + bool" where
  "is_monitoring_scheme F scheme intervals =
     bind_err (Damos_default F) (\<lambda>d. Damos_effectively_equal F d scheme intervals)"

record DamonRecord =
  rfile_buf :: rat
  rfile_path :: pyval




record DamonCtx =
  name :: pyval
  intervals :: DamonIntervals
  nr_regions :: DamonNrRegionsRange
  ops :: pyval
  targets :: "DamonTarget list"
  schemes :: "Damos list"
  record_request :: "DamonRecord option"



record Kdamond =
  name :: pyval
  state :: pyval
  pid :: pyval
  contexts :: "DamonCtx list"



section \<open>An instance of the formatting module\<close>

text \<open>
  Modelled from the spec: the module \<open>_damo_fmt_str\<close> is not among the sources. The
  instance \<open>fmt_sample\<close> of the parameter covers this much of what the specification says
  of it: a parser accepts an already-typed number, the words \<open>min\<close> and \<open>max\<close>, a bare
  decimal numeral, and (for percentages, per-mille values and numbers with a unit) a
  numeral followed by a blank and the unit; raw formatting writes the plain decimal
  integer. Thousands grouping, unit suffixes and the human-readable mode are left out (both
  modes format alike). The theorems hold for every value of the parameter; the instance
  serves to evaluate them at concrete values.
\<close>

definition digit_char :: "int \<Rightarrow> char" where
  "digit_char d = char_of (48 + d)"

function decimal :: "int \<Rightarrow> string" where
  "decimal n = (if n < 10 then [digit_char n] else decimal (n div 10) @ [digit_char (n mod 10)])"
  by pat_completeness auto
termination
  by (relation "measure nat") auto

declare decimal.simps [simp del]

definition digit_of :: "char \<Rightarrow> int option" where
  "digit_of c =
     (let k = (of_char c :: int) in if 48 \<le> k \<and> k \<le> 57 then Some (k - 48) else None)"

fun digits_of :: "int \<Rightarrow> string \<Rightarrow> int option" where
  "digits_of acc [] = Some acc"
| "digits_of acc (c # cs) =
     (case digit_of c of None \<Rightarrow> None | Some d \<Rightarrow> digits_of (10 * acc + d) cs)"

definition sample_numeral :: "string \<Rightarrow> py_error + rat" where
  "sample_numeral s =
     (if s = [] then Inl ValueError
      else case digits_of 0 s of None \<Rightarrow> Inl ValueError | Some n \<Rightarrow> Inr (of_int n))"

text \<open>A parser of plain quantities; \<open>most\<close> is the value of the word \<open>max\<close>.\<close>

definition sample_text_to_number :: "rat \<Rightarrow> pyval \<Rightarrow> py_error + rat" where
  "sample_text_to_number most v =
     (case v of
        VNum x \<Rightarrow> Inr x
      | VStr s \<Rightarrow>
          if s = ''min'' then Inr 0 else if s = ''max'' then Inr most else sample_numeral s
      | _ \<Rightarrow> Inl TypeError)"

text \<open>A numeral, a blank and a unit.\<close>

definition sample_text_to_nr_unit :: "pyval \<Rightarrow> py_error + (rat \<times> string)" where
  "sample_text_to_nr_unit v =
     (case v of
        VStr s \<Rightarrow>
          (let number = takeWhile (\<lambda>c. c \<noteq> CHR '' '') s;
               rest = dropWhile (\<lambda>c. c \<noteq> CHR '' '') s
           in if rest = [] then Inl ValueError
              else bind_err (sample_numeral number) (\<lambda>x. Inr (x, tl rest)))
      | _ \<Rightarrow> Inl TypeError)"

text \<open>A value in the unit \<open>%\<close>, scaled by \<open>scale\<close>; a bare number is taken as it is.\<close>

definition sample_text_to_ratio :: "rat \<Rightarrow> rat \<Rightarrow> pyval \<Rightarrow> py_error + rat" where
  "sample_text_to_ratio scale most v =
     (case v of
        VNum x \<Rightarrow> Inr x
      | VStr s \<Rightarrow>
          if s = ''min'' then Inr 0 else if s = ''max'' then Inr most
          else if CHR '' '' \<in> set s then
            bind_err (sample_text_to_nr_unit v) (\<lambda>(x, unit).
            if unit = ''%'' then Inr (x * scale) else Inl ValueError)
          else sample_numeral s
      | _ \<Rightarrow> Inl TypeError)"

definition sample_format :: "rat \<Rightarrow> bool \<Rightarrow> string" where
  "sample_format x raw = decimal (py_int x)"

definition sample_py_str :: "pyval \<Rightarrow> string" where
  "sample_py_str v =
     (case v of
        VNone \<Rightarrow> ''None''
      | VBool b \<Rightarrow> (if b then ''True'' else ''False'')
      | VNum x \<Rightarrow> decimal (py_int x)
      | VStr s \<Rightarrow> s
      | _ \<Rightarrow> '''')"

definition fmt_sample :: fmt_str where
  "fmt_sample =
     \<lparr>text_to_us = sample_text_to_number 18446744073709551615,
      text_to_ms = sample_text_to_number 18446744073709551615,
      text_to_nr = sample_text_to_number 18446744073709551615,
      text_to_bytes = sample_text_to_number 18446744073709551615,
      text_to_percent = sample_text_to_ratio 1 100,
      text_to_permil = sample_text_to_ratio 10 1000,
      text_to_bool = (\<lambda>v. case v of VBool b \<Rightarrow> Inr b | _ \<Rightarrow> Inl ValueError),
      text_to_nr_unit = sample_text_to_nr_unit,
      format_time_us = sample_format,
      format_time_us_exact = sample_format,
      format_time_ms_exact = sample_format,
      format_nr = sample_format,
      format_sz = sample_format,
      format_permil = sample_format,
      py_str = sample_py_str\<rparr>"

text \<open>The value of \<open>Damos()\<close> under \<open>fmt_sample\<close>.\<close>

definition default_scheme :: Damos where
  "default_scheme =
     \<lparr>Damos.name = VStr ''0'',
      access_pattern =
        \<lparr>min_sz_bytes = 0, max_sz_bytes = 18446744073709551615,
         min_nr_accesses = 0, max_nr_accesses = 100, nr_accesses_unit = unit_percent,
         min_age = 0, max_age = 18446744073709551615, age_unit = unit_usec\<rparr>,
      action = VStr ''stat'',
      quotas =
        \<lparr>time_ms = 0, sz_bytes = 0, reset_interval_ms = 18446744073709551615,
         weight_sz_permil = 0, weight_nr_accesses_permil = 0, weight_age_permil = 0\<rparr>,
      watermarks =
        \<lparr>metric = VStr ''none'', interval_us = 0, high_permil = 0, mid_permil = 0,
         low_permil = 0\<rparr>,
      filters = [], stats = None, tried_regions = None\<rparr>"

section \<open>The effective-equality law\<close>

text \<open>
  The law \<open>p.effectively_equal(p.converted_for_units(u1, u2, I), I)\<close>: the conversion
  returns a pattern and the comparison returns \<open>True\<close>.
\<close>

definition effective_equality_law ::
  "DamosAccessPattern \<Rightarrow> nr_accesses_unit \<Rightarrow> age_unit \<Rightarrow> DamonIntervals \<Rightarrow> bool"
where
  "effective_equality_law p u1 u2 ivs =
     (case converted_for_units p u1 u2 ivs of
        Inl e \<Rightarrow> False
      | Inr q \<Rightarrow> effectively_equal p q ivs = Inr True)"




definition intervals_5ms_100ms :: DamonIntervals where
  "intervals_5ms_100ms = \<lparr>sample = 5000, aggr = 100000, ops_update = 1000000\<rparr>"

section \<open>The round trip through the key-value form\<close>















subsection \<open>Example values\<close>














section \<open>Access patterns under the arithmetic of the interpreter\<close>

text \<open>
  The numbers of a pattern and of an interval set are Python numbers, an \<open>int\<close> or a
  \<open>float\<close>, and the conversions between units compute with them as the interpreter does:
  a float operation rounds, a quotient can be infinite, and \<open>int\<close> raises on a value that
  is not finite. The functions \<open>convert_nr_accesses_unit\<close> and \<open>convert_age_unit\<close> above
  compute without rounding. The functions of this section take the arithmetic as a
  parameter \<open>A\<close>, which gives the value of each arithmetic expression of the two methods
  as a function of its operands (or the exception it raises):

  \<^item> \<open>py_truediv A a s\<close> is \<open>intervals.aggr / intervals.sample\<close>; \<open>'q\<close> is the type of the
    quotients;
  \<^item> \<open>py_int_mul_div100 A x q\<close> is \<open>int(x * q / 100)\<close>;
  \<^item> \<open>py_int_mul100_div A x q\<close> is \<open>int(x * 100.0 / q)\<close>;
  \<^item> \<open>py_mul A x a\<close> is \<open>x * intervals.aggr\<close> (taken to be a finite number);
  \<^item> \<open>py_int_truediv A x a\<close> is \<open>int(x / intervals.aggr)\<close>.
\<close>

record 'q py_arith =
  py_truediv :: "rat \<Rightarrow> rat \<Rightarrow> py_error + 'q"
  py_int_mul_div100 :: "rat \<Rightarrow> 'q \<Rightarrow> py_error + int"
  py_int_mul100_div :: "rat \<Rightarrow> 'q \<Rightarrow> py_error + int"
  py_mul :: "rat \<Rightarrow> rat \<Rightarrow> rat"
  py_int_truediv :: "rat \<Rightarrow> rat \<Rightarrow> py_error + int"

definition convert_nr_accesses_unit_arith ::
  "'q py_arith \<Rightarrow> DamosAccessPattern \<Rightarrow> nr_accesses_unit \<Rightarrow> DamonIntervals
     \<Rightarrow> py_error + DamosAccessPattern"
where
  "convert_nr_accesses_unit_arith A self u ivs =
     (if nr_accesses_unit self = u then Inr self
      else
        bind_err (py_truediv A (aggr ivs) (sample ivs))
          (\<lambda>max_nr_accesses_sample_intervals.
        if u = unit_sample_intervals then
          bind_err (py_int_mul_div100 A (min_nr_accesses self)
                      max_nr_accesses_sample_intervals) (\<lambda>mn.
          bind_err (py_int_mul_div100 A (max_nr_accesses self)
                      max_nr_accesses_sample_intervals) (\<lambda>mx.
          Inr (self\<lparr>min_nr_accesses := of_int mn, max_nr_accesses := of_int mx,
                     nr_accesses_unit := u\<rparr>)))
        else
          bind_err (py_int_mul100_div A (min_nr_accesses self)
                      max_nr_accesses_sample_intervals) (\<lambda>mn.
          bind_err (py_int_mul100_div A (max_nr_accesses self)
                      max_nr_accesses_sample_intervals) (\<lambda>mx.
          Inr (self\<lparr>min_nr_accesses := of_int mn, max_nr_accesses := of_int mx,
                     nr_accesses_unit := u\<rparr>)))))"

definition convert_age_unit_arith ::
  "'q py_arith \<Rightarrow> DamosAccessPattern \<Rightarrow> age_unit \<Rightarrow> DamonIntervals
     \<Rightarrow> py_error + DamosAccessPattern"
where
  "convert_age_unit_arith A self u ivs =
     (if age_unit self = u then Inr self
      else if u = unit_usec then
        Inr (self\<lparr>min_age := py_mul A (min_age self) (aggr ivs),
                   max_age := py_mul A (max_age self) (aggr ivs),
                   age_unit := u\<rparr>)
      else
        bind_err (py_int_truediv A (min_age self) (aggr ivs)) (\<lambda>mn.
        bind_err (py_int_truediv A (max_age self) (aggr ivs)) (\<lambda>mx.
        Inr (self\<lparr>min_age := of_int mn, max_age := of_int mx, age_unit := u\<rparr>))))"

definition convert_for_units_arith ::
  "'q py_arith \<Rightarrow> DamosAccessPattern \<Rightarrow> nr_accesses_unit \<Rightarrow> age_unit \<Rightarrow> DamonIntervals
     \<Rightarrow> py_error + DamosAccessPattern"
where
  "convert_for_units_arith A self u1 u2 ivs =
     bind_err (convert_nr_accesses_unit_arith A self u1 ivs) (\<lambda>self'.
     convert_age_unit_arith A self' u2 ivs)"

definition converted_for_units_arith ::
  "'q py_arith \<Rightarrow> DamosAccessPattern \<Rightarrow> nr_accesses_unit \<Rightarrow> age_unit \<Rightarrow> DamonIntervals
     \<Rightarrow> py_error + DamosAccessPattern"
where
  "converted_for_units_arith A self u1 u2 ivs = convert_for_units_arith A self u1 u2 ivs"

definition effectively_equal_arith ::
  "'q py_arith \<Rightarrow> DamosAccessPattern \<Rightarrow> DamosAccessPattern \<Rightarrow> DamonIntervals
     \<Rightarrow> py_error + bool"
where
  "effectively_equal_arith A self other ivs =
     bind_err
       (converted_for_units_arith A self unit_sample_intervals unit_aggr_intervals ivs)
       (\<lambda>a.
     bind_err
       (converted_for_units_arith A other unit_sample_intervals unit_aggr_intervals ivs)
       (\<lambda>b.
     Inr (DamosAccessPattern_eq a b)))"

text \<open>The law \<open>p.effectively_equal(p.converted_for_units(u1, u2, I), I)\<close> under the
  arithmetic \<open>A\<close>: the conversion returns a pattern and the comparison returns \<open>True\<close>.\<close>

definition effective_equality_law_arith ::
  "'q py_arith \<Rightarrow> DamosAccessPattern \<Rightarrow> nr_accesses_unit \<Rightarrow> age_unit \<Rightarrow> DamonIntervals
     \<Rightarrow> bool"
where
  "effective_equality_law_arith A p u1 u2 ivs =
     (case converted_for_units_arith A p u1 u2 ivs of
        Inl e \<Rightarrow> False
      | Inr q \<Rightarrow> effectively_equal_arith A p q ivs = Inr True)"

text \<open>The arithmetic without rounding, under which the functions of this section are
  the functions above.\<close>

definition exact_arith :: "rat py_arith" where
  "exact_arith =
     \<lparr>py_truediv = (\<lambda>a s. if s = 0 then Inl ZeroDivisionError else Inr (a / s)),
      py_int_mul_div100 = (\<lambda>x q. Inr (py_int (x * q / 100))),
      py_int_mul100_div =
        (\<lambda>x q. if q = 0 then Inl ZeroDivisionError else Inr (py_int (x * 100 / q))),
      py_mul = (\<lambda>x a. x * a),
      py_int_truediv =
        (\<lambda>x a. if a = 0 then Inl ZeroDivisionError else Inr (py_int (x / a)))\<rparr>"


section \<open>Monitoring results (\<open>_damon_result.py\<close>)\<close>

text \<open>
  \<open>DAMONRegion\<close>, \<open>DAMONSnapshot\<close> and \<open>DAMONResult\<close> are the three classes of
  \<open>_damon_result.py\<close>. The field \<open>end\<close> of a region is written \<open>end'\<close>.
  \<open>target_snapshots\<close> is a Python dict; iteration follows insertion order, so it is an
  association list in insertion order with unique keys.
\<close>

record DAMONRegion =
  start :: int
  end' :: int
  nr_accesses :: int
  age :: "int option"

record DAMONSnapshot =
  start_time :: "pynum option"
  end_time :: pynum
  target_id :: int
  regions :: "DAMONRegion list"

section \<open>Snapshot aggregation\<close>

definition regions_intersect :: "DAMONRegion \<Rightarrow> DAMONRegion \<Rightarrow> bool" where
  "regions_intersect r1 r2 = (\<not> (end' r1 \<le> start r2 \<or> end' r2 \<le> start r1))"

text \<open>
  The \<open>for r in regions\<close> loop of \<open>add_region\<close> acts on the first region of the
  accumulator that intersects the inserted one and returns; \<open>first_intersecting\<close> is the
  index of that region.
\<close>

fun first_intersecting :: "DAMONRegion list \<Rightarrow> DAMONRegion \<Rightarrow> nat option" where
  "first_intersecting [] region = None"
| "first_intersecting (r # rs) region =
     (if regions_intersect r region then Some 0
      else map_option Suc (first_intersecting rs region))"

lemma first_intersecting_Some:
  "first_intersecting rs region = Some i \<Longrightarrow>
     i < length rs \<and> regions_intersect (rs ! i) region"
  by (induction rs arbitrary: i) (auto split: if_splits)

lemma first_intersecting_None:
  "first_intersecting rs region = None \<Longrightarrow> \<forall>r \<in> set rs. \<not> regions_intersect r region"
  by (induction rs) (auto split: if_splits)

text \<open>The list \<open>new_regions\<close> built inside \<open>add_region\<close>: what is left of \<open>region\<close>
  before and after the accumulator region \<open>r\<close>.\<close>

definition remainders :: "DAMONRegion \<Rightarrow> DAMONRegion \<Rightarrow> DAMONRegion list" where
  "remainders r region =
     (if start region < start r
      then [\<lparr>start = start region, end' = start r,
             nr_accesses = nr_accesses region, age = age region\<rparr>]
      else []) @
     (if end' r < end' region
      then [\<lparr>start = end' r, end' = end' region,
             nr_accesses = nr_accesses region, age = age region\<rparr>]
      else [])"

text \<open>
  \<open>add_region\<close> mutates the accumulator list and the dict \<open>nr_acc_to_add\<close>; the model
  returns both. The dict is keyed by region objects, compared by identity. Regions are only
  ever appended to the accumulator, so an accumulator region is identified by its index, and
  the dict is a map from indices. (The input regions are taken to be distinct objects, as the
  decoders build them; the start and the end of a region are never assigned after
  construction.) This is the result on a stack without a bound; \<open>add_region_frames\<close>
  below takes the recursion limit of the interpreter into account.
\<close>

function add_region ::
  "DAMONRegion list \<Rightarrow> DAMONRegion \<Rightarrow> (nat \<rightharpoonup> int)
     \<Rightarrow> DAMONRegion list \<times> (nat \<rightharpoonup> int)"
where
  "add_region regs region nr_acc_to_add =
     (case first_intersecting regs region of
        None \<Rightarrow> (regs @ [region], nr_acc_to_add)
      | Some i \<Rightarrow>
          (let r = regs ! i;
               pending = (case nr_acc_to_add i of None \<Rightarrow> 0 | Some v \<Rightarrow> v);
               nr_acc_to_add' = nr_acc_to_add(i \<mapsto> max pending (nr_accesses region))
           in fold (\<lambda>new_r st. add_region (fst st) new_r (snd st))
                (remainders r region) (regs, nr_acc_to_add')))"
  by pat_completeness auto
termination
proof (relation "measure (\<lambda>(regs, region, m). nat (end' region - start region))", goal_cases)
  case 1
  show ?case by simp
next
  case (2 regs region m i r pending m' new_r st)
  from 2(1) have "regions_intersect (regs ! i) region"
    by (simp add: first_intersecting_Some)
  with 2 show ?case
    by (auto simp: remainders_def regions_intersect_def split: if_splits)
qed

declare add_region.simps [simp del]

text \<open>The loop \<open>for region in nr_acc_to_add: region.nr_accesses += nr_acc_to_add[region]\<close>.\<close>

definition apply_pending :: "DAMONRegion list \<Rightarrow> (nat \<rightharpoonup> int) \<Rightarrow> DAMONRegion list" where
  "apply_pending regs nr_acc_to_add =
     map (\<lambda>(i, r). case nr_acc_to_add i of
                      None \<Rightarrow> r
                    | Some v \<Rightarrow> r\<lparr>nr_accesses := nr_accesses r + v\<rparr>)
         (zip [0..<length regs] regs)"

text \<open>One iteration of the outer loop of \<open>aggregate_snapshots\<close>.\<close>

definition aggregate_pass :: "DAMONSnapshot \<Rightarrow> DAMONRegion list \<Rightarrow> DAMONRegion list" where
  "aggregate_pass snapshot new_regions =
     (let (regs, nr_acc_to_add) =
            fold (\<lambda>region st. add_region (fst st) region (snd st))
                 (regions snapshot) (new_regions, Map.empty)
      in apply_pending regs nr_acc_to_add)"

text \<open>\<open>snapshots[0]\<close> and \<open>snapshots[-1]\<close> raise \<open>IndexError\<close> on the empty list.\<close>

definition aggregate_snapshots :: "DAMONSnapshot list \<Rightarrow> py_error + DAMONSnapshot" where
  "aggregate_snapshots snapshots =
     (let new_regions = fold aggregate_pass snapshots []
      in if snapshots = [] then Inl IndexError
         else Inr \<lparr>DAMONSnapshot.start_time = DAMONSnapshot.start_time (hd snapshots),
                   DAMONSnapshot.end_time = DAMONSnapshot.end_time (last snapshots),
                   target_id = target_id (hd snapshots),
                   regions = new_regions\<rparr>)"

text \<open>Pairwise disjointness of a region list, under \<open>regions_intersect\<close>.\<close>

fun pairwise_disjoint :: "DAMONRegion list \<Rightarrow> bool" where
  "pairwise_disjoint [] = True"
| "pairwise_disjoint (r # rs) =
     ((\<forall>x \<in> set rs. \<not> regions_intersect r x) \<and> pairwise_disjoint rs)"

text \<open>The two snapshots of the aggregation example.\<close>

definition snapshot_A :: DAMONSnapshot where
  "snapshot_A =
     \<lparr>DAMONSnapshot.start_time = Some (PInt 0), DAMONSnapshot.end_time = PInt 100, target_id = 1,
      regions = [\<lparr>start = 0, end' = 10, nr_accesses = 5, age = None\<rparr>]\<rparr>"

definition snapshot_B :: DAMONSnapshot where
  "snapshot_B =
     \<lparr>DAMONSnapshot.start_time = Some (PInt 100), DAMONSnapshot.end_time = PInt 200, target_id = 1,
      regions = [\<lparr>start = 0, end' = 5, nr_accesses = 2, age = None\<rparr>,
                 \<lparr>start = 5, end' = 10, nr_accesses = 4, age = None\<rparr>]\<rparr>"

section \<open>Snapshot aggregation on a bounded stack\<close>

text \<open>
  \<open>add_region\<close> calls itself once for each accumulator region that the inserted region
  runs over, one call inside the other, and the interpreter raises \<open>RecursionError\<close> when
  the calls of Python functions are nested deeper than its recursion limit. The functions
  of the last section give the result on a stack without a bound; the functions of this
  section take the bound into account. Their first argument \<open>n\<close> is the number of nested
  calls that the interpreter still allows at the place of the call (the recursion limit
  less the depth of the stack there). A call of a function defined in Python
  (\<open>aggregate_snapshots\<close>, \<open>add_region\<close>, \<open>regions_intersect\<close>, the constructors of
  \<open>DAMONRegion\<close> and \<open>DAMONSnapshot\<close>) takes one of them while it runs; the built-in
  functions are not counted.
\<close>

text \<open>A loop whose body can raise.\<close>

fun fold_err :: "('a \<Rightarrow> 's \<Rightarrow> py_error + 's) \<Rightarrow> 'a list \<Rightarrow> 's \<Rightarrow> py_error + 's" where
  "fold_err f [] st = Inr st"
| "fold_err f (x # xs) st = bind_err (f x st) (fold_err f xs)"

text \<open>
  \<open>add_region\<close> with \<open>n\<close> calls allowed: the call itself takes one; when the accumulator
  is not empty the loop calls \<open>regions_intersect\<close>, which takes another one, and so do
  the constructor of a remainder and the recursive calls, which are left with \<open>n - 1\<close>.
\<close>

fun add_region_frames ::
  "nat \<Rightarrow> DAMONRegion list \<Rightarrow> DAMONRegion \<Rightarrow> (nat \<rightharpoonup> int)
     \<Rightarrow> py_error + DAMONRegion list \<times> (nat \<rightharpoonup> int)"
where
  "add_region_frames 0 regs region nr_acc_to_add = Inl RecursionError"
| "add_region_frames (Suc n) regs region nr_acc_to_add =
     (if regs \<noteq> [] \<and> n = 0 then Inl RecursionError
      else
        case first_intersecting regs region of
          None \<Rightarrow> Inr (regs @ [region], nr_acc_to_add)
        | Some i \<Rightarrow>
            (let r = regs ! i;
                 pending = (case nr_acc_to_add i of None \<Rightarrow> 0 | Some v \<Rightarrow> v);
                 nr_acc_to_add' = nr_acc_to_add(i \<mapsto> max pending (nr_accesses region))
             in fold_err (\<lambda>new_r st. add_region_frames n (fst st) new_r (snd st))
                  (remainders r region) (regs, nr_acc_to_add')))"

text \<open>One iteration of the outer loop of \<open>aggregate_snapshots\<close>, which calls
  \<open>add_region\<close> with \<open>n\<close> calls allowed.\<close>

definition aggregate_pass_frames ::
  "nat \<Rightarrow> DAMONSnapshot \<Rightarrow> DAMONRegion list \<Rightarrow> py_error + DAMONRegion list" where
  "aggregate_pass_frames n snapshot new_regions =
     bind_err
       (fold_err (\<lambda>region st. add_region_frames n (fst st) region (snd st))
          (regions snapshot) (new_regions, Map.empty))
       (\<lambda>(regs, nr_acc_to_add). Inr (apply_pending regs nr_acc_to_add))"

text \<open>
  \<open>aggregate_snapshots\<close> with \<open>n\<close> calls allowed: the call itself takes one, the loops
  run, \<open>snapshots[0]\<close> is evaluated (\<open>IndexError\<close> on the empty list), and the constructor
  of the result is called.
\<close>

definition aggregate_snapshots_frames ::
  "nat \<Rightarrow> DAMONSnapshot list \<Rightarrow> py_error + DAMONSnapshot" where
  "aggregate_snapshots_frames n snapshots =
     (case n of
        0 \<Rightarrow> Inl RecursionError
      | Suc k \<Rightarrow>
          bind_err (fold_err (aggregate_pass_frames k) snapshots []) (\<lambda>new_regions.
          if snapshots = [] then Inl IndexError
          else if k = 0 then Inl RecursionError
          else Inr \<lparr>DAMONSnapshot.start_time = DAMONSnapshot.start_time (hd snapshots),
                    DAMONSnapshot.end_time = DAMONSnapshot.end_time (last snapshots),
                    target_id = target_id (hd snapshots),
                    regions = new_regions\<rparr>))"


text \<open>A snapshot whose region runs over the three regions of another one.\<close>

definition snapshot_three :: DAMONSnapshot where
  "snapshot_three =
     \<lparr>DAMONSnapshot.start_time = Some (PInt 0), DAMONSnapshot.end_time = PInt 100,
      target_id = 1,
      regions = [\<lparr>start = 0, end' = 10, nr_accesses = 1, age = None\<rparr>,
                 \<lparr>start = 10, end' = 20, nr_accesses = 2, age = None\<rparr>,
                 \<lparr>start = 20, end' = 30, nr_accesses = 3, age = None\<rparr>]\<rparr>"

definition snapshot_over_three :: DAMONSnapshot where
  "snapshot_over_three =
     \<lparr>DAMONSnapshot.start_time = Some (PInt 100), DAMONSnapshot.end_time = PInt 200,
      target_id = 1,
      regions = [\<lparr>start = 0, end' = 40, nr_accesses = 7, age = None\<rparr>]\<rparr>"

section \<open>The binary record format\<close>

record DAMONResult =
  start_time :: "pynum option"
  end_time :: "pynum option"
  nr_snapshots :: "int option"
  target_snapshots :: "(int \<times> DAMONSnapshot list) list"

text \<open>\<open>DAMONResult()\<close>: the three scalar attributes are \<open>None\<close>, the dict is empty.\<close>

definition DAMONResult_init :: DAMONResult where
  "DAMONResult_init =
     \<lparr>DAMONResult.start_time = None, DAMONResult.end_time = None, nr_snapshots = None,
      target_snapshots = []\<rparr>"

subsection \<open>\<open>struct\<close>\<close>

text \<open>
  A file is a list of bytes. The formats of \<open>struct\<close> are the native ones of a 64-bit
  little-endian Linux machine: \<open>i\<close> and \<open>I\<close> take 4 bytes, \<open>l\<close> and \<open>L\<close> take 8, the
  least significant byte comes first. \<open>struct.unpack\<close> raises \<open>struct.error\<close> when the
  buffer has not the size of the format; \<open>struct.pack\<close> raises it when the argument is
  not an \<open>int\<close> or is out of the range of the format.
\<close>

type_synonym byte = "8 word"

definition le_value :: "byte list \<Rightarrow> int" where
  "le_value bs = foldr (\<lambda>b acc. uint b + 256 * acc) bs 0"

definition le_bytes :: "nat \<Rightarrow> int \<Rightarrow> byte list" where
  "le_bytes n v = map (\<lambda>k. word_of_int (v div 256 ^ k)) [0..<n]"

definition unpack_unsigned :: "nat \<Rightarrow> byte list \<Rightarrow> py_error + int" where
  "unpack_unsigned n bs =
     (if length bs \<noteq> n then Inl StructError else Inr (le_value bs))"

definition unpack_signed :: "nat \<Rightarrow> byte list \<Rightarrow> py_error + int" where
  "unpack_signed n bs =
     (if length bs \<noteq> n then Inl StructError
      else let v = le_value bs
           in Inr (if v < 2 ^ (8 * n - 1) then v else v - 2 ^ (8 * n)))"

definition pack_unsigned :: "nat \<Rightarrow> pynum \<Rightarrow> py_error + byte list" where
  "pack_unsigned n x =
     (case x of
        PInt v \<Rightarrow> if 0 \<le> v \<and> v < 2 ^ (8 * n) then Inr (le_bytes n v)
                  else Inl StructError
      | PFloat _ \<Rightarrow> Inl StructError)"

definition pack_signed :: "nat \<Rightarrow> pynum \<Rightarrow> py_error + byte list" where
  "pack_signed n x =
     (case x of
        PInt v \<Rightarrow> if - (2 ^ (8 * n - 1)) \<le> v \<and> v < 2 ^ (8 * n - 1)
                  then Inr (le_bytes n (v mod 2 ^ (8 * n)))
                  else Inl StructError
      | PFloat _ \<Rightarrow> Inl StructError)"

text \<open>The magic literal \<open>b'damon_recfmt_ver'\<close>.\<close>

definition recfmt_mark :: "byte list" where
  "recfmt_mark = map of_char ''damon_recfmt_ver''"

subsection \<open>Arithmetic on Python numbers\<close>

fun py_value :: "pynum \<Rightarrow> rat" where
  "py_value (PInt i) = of_int i"
| "py_value (PFloat x) = x"

fun py_sub :: "pynum \<Rightarrow> pynum \<Rightarrow> pynum" where
  "py_sub (PInt a) (PInt b) = PInt (a - b)"
| "py_sub a b = PFloat (py_value a - py_value b)"

fun py_add :: "pynum \<Rightarrow> pynum \<Rightarrow> pynum" where
  "py_add (PInt a) (PInt b) = PInt (a + b)"
| "py_add a b = PFloat (py_value a + py_value b)"

text \<open>\<open>x // d\<close> and \<open>x % d\<close> for a positive \<open>int\<close> \<open>d\<close>: floor division and its remainder.\<close>

fun py_floordiv :: "pynum \<Rightarrow> int \<Rightarrow> pynum" where
  "py_floordiv (PInt a) d = PInt (a div d)"
| "py_floordiv (PFloat x) d = PFloat (of_int \<lfloor>x / of_int d\<rfloor>)"

fun py_mod :: "pynum \<Rightarrow> int \<Rightarrow> pynum" where
  "py_mod (PInt a) d = PInt (a mod d)"
| "py_mod (PFloat x) d = PFloat (x - of_int d * of_int \<lfloor>x / of_int d\<rfloor>)"

text \<open>The truth value of an optional number: \<open>None\<close> and zero are false.\<close>

fun py_truthy :: "pynum option \<Rightarrow> bool" where
  "py_truthy None = False"
| "py_truthy (Some x) = (py_value x \<noteq> 0)"

subsection \<open>Decoding: \<open>record_to_damon_result\<close>\<close>

text \<open>
  An open file: its bytes, the position of the next read, and whether it has been closed.
  \<open>f.read(n)\<close> at position \<open>pos\<close> returns \<open>take n (drop pos data)\<close> and moves the position
  by the number of bytes returned.
\<close>

record stream =
  data :: "byte list"
  pos :: nat
  closed :: bool

text \<open>The regions of one snapshot: \<open>for r in range(nr_regions)\<close>.\<close>

fun read_regions :: "nat \<Rightarrow> byte list \<Rightarrow> nat \<Rightarrow> py_error + (DAMONRegion list \<times> nat)" where
  "read_regions 0 bs p = Inr ([], p)"
| "read_regions (Suc n) bs p =
     bind_err (unpack_unsigned 8 (take 8 (drop p bs))) (\<lambda>start_addr.
     bind_err (unpack_unsigned 8 (take 8 (drop (p + 8) bs))) (\<lambda>end_addr.
     bind_err (unpack_unsigned 4 (take 4 (drop (p + 16) bs))) (\<lambda>nr_acc.
     bind_err (read_regions n bs (p + 20)) (\<lambda>(rs, p').
     Inr (\<lparr>start = start_addr, end' = end_addr, nr_accesses = nr_acc, age = None\<rparr> # rs,
          p')))))"

text \<open>
  \<open>result.target_snapshots[target_id].append(snapshot)\<close>, after the key has been added
  with an empty list when it was absent: a new key goes to the end of the dict.
\<close>

fun append_snapshot ::
  "int \<Rightarrow> DAMONSnapshot \<Rightarrow> (int \<times> DAMONSnapshot list) list
     \<Rightarrow> (int \<times> DAMONSnapshot list) list"
where
  "append_snapshot tid s [] = [(tid, [s])]"
| "append_snapshot tid s ((k, v) # kvs) =
     (if k = tid then (k, v @ [s]) # kvs else (k, v) # append_snapshot tid s kvs)"

text \<open>The start time of the next snapshot of a target: the end time of its last one.\<close>

definition next_start_time ::
  "(int \<times> DAMONSnapshot list) list \<Rightarrow> int \<Rightarrow> pynum option" where
  "next_start_time ts tid =
     (case map_of ts tid of
        None \<Rightarrow> None
      | Some snaps \<Rightarrow> if snaps = [] then None else Some (DAMONSnapshot.end_time (last snaps)))"

text \<open>The tasks of one record: \<open>for t in range(nr_tasks)\<close>.\<close>

fun read_tasks ::
  "nat \<Rightarrow> int \<Rightarrow> pynum \<Rightarrow> byte list \<Rightarrow> nat \<Rightarrow> (int \<times> DAMONSnapshot list) list
     \<Rightarrow> py_error + ((int \<times> DAMONSnapshot list) list \<times> nat)"
where
  "read_tasks 0 fmt_version t_end bs p ts = Inr (ts, p)"
| "read_tasks (Suc n) fmt_version t_end bs p ts =
     bind_err (if fmt_version = 1
               then bind_err (unpack_signed 4 (take 4 (drop p bs))) (\<lambda>v. Inr (v, p + 4))
               else bind_err (unpack_unsigned 8 (take 8 (drop p bs))) (\<lambda>v. Inr (v, p + 8)))
       (\<lambda>(tid, p1).
     bind_err (unpack_unsigned 4 (take 4 (drop p1 bs))) (\<lambda>nr_regions.
     bind_err (read_regions (nat nr_regions) bs (p1 + 4)) (\<lambda>(rs, p2).
     read_tasks n fmt_version t_end bs p2
       (append_snapshot tid
          \<lparr>DAMONSnapshot.start_time = next_start_time ts tid,
           DAMONSnapshot.end_time = t_end, target_id = tid, regions = rs\<rparr> ts))))"

lemma read_regions_pos: "read_regions n bs p = Inr (rs, p') \<Longrightarrow> p \<le> p'"
proof (induction n arbitrary: p rs p')
  case 0
  then show ?case by simp
next
  case (Suc n)
  from Suc.prems obtain rs0 where "read_regions n bs (p + 20) = Inr (rs0, p')"
    by (auto simp: bind_err_def split: sum.splits)
  from Suc.IH [OF this] show ?case by simp
qed

lemma read_tasks_pos: "read_tasks n v t bs p ts = Inr (ts', p') \<Longrightarrow> p \<le> p'"
proof (induction n arbitrary: v p ts ts' p')
  case 0
  then show ?case by simp
next
  case (Suc n)
  from Suc.prems show ?case
    by (auto simp: bind_err_def split: sum.splits if_splits
          dest!: Suc.IH read_regions_pos)
qed

text \<open>
  The \<open>while True\<close> loop. It ends at the end of the stream (fewer than 16 bytes left; the
  file is closed when no time budget is given), or when the time budget is exceeded (the
  16 bytes of the time stamp are given back by \<open>f.seek(-16, 1)\<close>). Every other turn reads
  at least 20 bytes, so the loop terminates.
\<close>

function record_loop ::
  "byte list \<Rightarrow> int \<Rightarrow> int option \<Rightarrow> nat \<Rightarrow> int option \<Rightarrow> DAMONResult
     \<Rightarrow> py_error + (DAMONResult \<times> nat \<times> bool)"
where
  "record_loop bs fmt_version max_secs p parse_start_time result =
     (let timebin = take 16 (drop p bs)
      in if length timebin \<noteq> 16 then Inr (result, p + length timebin, max_secs = None)
         else
           case unpack_signed 8 (take 8 timebin) of
             Inl e \<Rightarrow> Inl e
           | Inr sec \<Rightarrow>
           case unpack_signed 8 (drop 8 timebin) of
             Inl e \<Rightarrow> Inl e
           | Inr nsec \<Rightarrow>
               let t_end = sec * 1000000000 + nsec;
                   unset = (parse_start_time = None \<or> parse_start_time = Some 0)
               in if \<not> unset \<and> max_secs \<noteq> None \<and>
                     t_end - (the parse_start_time) > (the max_secs) * 1000000000
                  then Inr (result, p, False)
                  else
                    case unpack_unsigned 4 (take 4 (drop (p + 16) bs)) of
                      Inl e \<Rightarrow> Inl e
                    | Inr nr_tasks \<Rightarrow>
                    case read_tasks (nat nr_tasks) fmt_version (PInt t_end) bs (p + 20)
                           (target_snapshots result) of
                      Inl e \<Rightarrow> Inl e
                    | Inr (ts, p') \<Rightarrow>
                        record_loop bs fmt_version max_secs p'
                          (if unset then Some t_end else parse_start_time)
                          (result\<lparr>target_snapshots := ts\<rparr>))"
  by pat_completeness auto
termination
proof (relation "measure (\<lambda>(bs, v, m, p, pst, r). length bs - p)", goal_cases)
  case 1
  show ?case by simp
next
  case (2 bs fmt_version max_secs p parse_start_time result timebin sec nsec t_end unset
          nr_tasks x ts p')
  from 2 have "p + 20 \<le> p'"
    using read_tasks_pos [of "nat nr_tasks" fmt_version "PInt t_end" bs "p + 20"
            "target_snapshots result" ts p']
    by simp
  moreover from 2 have "p + 16 \<le> length bs"
    by simp
  ultimately show ?case by simp
qed

declare record_loop.simps [simp del]

text \<open>
  The part of \<open>record_to_damon_result\<close> after the format version is known: a fresh
  result, the loop, and the returned tuple \<open>(result, f, fmt_version, None)\<close>. Reading a
  closed file raises \<open>ValueError\<close>.
\<close>

definition decode_records ::
  "stream \<Rightarrow> int \<Rightarrow> int option
     \<Rightarrow> py_error + (DAMONResult option \<times> stream option \<times> int option \<times> string option)"
where
  "decode_records f fmt_version max_secs =
     (if closed f then Inl ValueError
      else bind_err (record_loop (data f) fmt_version max_secs (pos f) None DAMONResult_init)
             (\<lambda>(result, p, c).
           Inr (Some result, Some (f\<lparr>pos := p, closed := c\<rparr>), Some fmt_version, None)))"

text \<open>
  \<open>record_to_damon_result(file_path, f, fmt_version, max_secs)\<close>; \<open>file\<close> is the content
  of the file at \<open>file_path\<close>. \<open>not fmt_version\<close> holds for \<open>None\<close> and for 0.
\<close>

definition record_to_damon_result ::
  "byte list \<Rightarrow> stream option \<Rightarrow> int option \<Rightarrow> int option
     \<Rightarrow> py_error + (DAMONResult option \<times> stream option \<times> int option \<times> string option)"
where
  "record_to_damon_result file f fmt_version max_secs =
     (case f of
        None \<Rightarrow>
          (let mark = take 16 file
           in if mark = recfmt_mark then
                bind_err (unpack_signed 4 (take 4 (drop 16 file))) (\<lambda>v.
                decode_records \<lparr>data = file, pos = 20, closed = False\<rparr> v max_secs)
              else decode_records \<lparr>data = file, pos = 0, closed = False\<rparr> 0 max_secs)
      | Some s \<Rightarrow>
          if fmt_version = None \<or> fmt_version = Some 0
          then Inr (None, None, None, Some ''fmt_version is not given'')
          else decode_records s (the fmt_version) max_secs)"

subsection \<open>Encoding: \<open>write_damon_record\<close> and \<open>write_damon_result\<close>\<close>

definition write_region :: "DAMONRegion \<Rightarrow> py_error + byte list" where
  "write_region region =
     bind_err (pack_unsigned 8 (PInt (start region))) (\<lambda>b1.
     bind_err (pack_unsigned 8 (PInt (end' region))) (\<lambda>b2.
     bind_err (pack_unsigned 4 (PInt (nr_accesses region))) (\<lambda>b3.
     Inr (b1 @ b2 @ b3))))"

text \<open>Concatenation of the bytes that a loop writes, up to the first exception.\<close>

fun write_all :: "('a \<Rightarrow> py_error + byte list) \<Rightarrow> 'a list \<Rightarrow> py_error + byte list" where
  "write_all w [] = Inr []"
| "write_all w (x # xs) =
     bind_err (w x) (\<lambda>b. bind_err (write_all w xs) (\<lambda>bs. Inr (b @ bs)))"

definition write_snapshot :: "int \<Rightarrow> DAMONSnapshot \<Rightarrow> py_error + byte list" where
  "write_snapshot format_version snapshot =
     bind_err (pack_signed 8 (py_floordiv (DAMONSnapshot.end_time snapshot) 1000000000))
       (\<lambda>b1.
     bind_err (pack_signed 8 (py_mod (DAMONSnapshot.end_time snapshot) 1000000000)) (\<lambda>b2.
     bind_err (pack_unsigned 4 (PInt 1)) (\<lambda>b3.
     bind_err (if format_version = 1 then pack_signed 4 (PInt (target_id snapshot))
               else pack_unsigned 8 (PInt (target_id snapshot))) (\<lambda>b4.
     bind_err (pack_unsigned 4 (PInt (int (length (regions snapshot))))) (\<lambda>b5.
     bind_err (write_all write_region (regions snapshot)) (\<lambda>b6.
     Inr (b1 @ b2 @ b3 @ b4 @ b5 @ b6)))))))"

text \<open>
  \<open>write_damon_record\<close> returns the bytes of the file. \<open>range(result.nr_snapshots)\<close>
  raises \<open>TypeError\<close> on \<open>None\<close>; \<open>result.target_snapshots[tid][snapshot_idx]\<close> raises
  \<open>IndexError\<close> when the target has fewer snapshots.
\<close>

definition write_damon_record :: "DAMONResult \<Rightarrow> int \<Rightarrow> py_error + byte list" where
  "write_damon_record result format_version =
     bind_err (pack_signed 4 (PInt format_version)) (\<lambda>v.
     case nr_snapshots result of
       None \<Rightarrow> Inl TypeError
     | Some n \<Rightarrow>
         bind_err
           (write_all (\<lambda>snapshot_idx.
              write_all (\<lambda>(tid, snaps).
                 if snapshot_idx < length snaps
                 then write_snapshot format_version (snaps ! snapshot_idx)
                 else Inl IndexError)
               (target_snapshots result))
            [0..<nat n])
           (\<lambda>bs. Inr (recfmt_mark @ v @ bs)))"

text \<open>
  The first loop of \<open>write_damon_result\<close>: a target with a single snapshot gets a fake
  second snapshot, with the one region \<open>DAMONRegion(0, 0, -1, -1)\<close>, and the snapshot
  count of the result grows by one. \<open>snapshot.end_time - snapshot.start_time\<close> raises
  \<open>TypeError\<close> when the start time is \<open>None\<close>, and so does \<open>result.nr_snapshots += 1\<close>
  when the count is \<open>None\<close>.
\<close>

definition fake_region :: DAMONRegion where
  "fake_region = \<lparr>start = 0, end' = 0, nr_accesses = - 1, age = Some (- 1)\<rparr>"

fun add_fake_snapshots ::
  "(int \<times> DAMONSnapshot list) list \<Rightarrow> int option
     \<Rightarrow> py_error + ((int \<times> DAMONSnapshot list) list \<times> int option)"
where
  "add_fake_snapshots [] n = Inr ([], n)"
| "add_fake_snapshots ((tid, snaps) # rest) n =
     (if length snaps = 1 then
        (let snapshot = hd snaps
         in case DAMONSnapshot.start_time snapshot of
              None \<Rightarrow> Inl TypeError
            | Some t_start \<Rightarrow>
                (let snap_duration = py_sub (DAMONSnapshot.end_time snapshot) t_start;
                     fake_snapshot =
                       \<lparr>DAMONSnapshot.start_time = Some (DAMONSnapshot.end_time snapshot),
                        DAMONSnapshot.end_time =
                          py_add (DAMONSnapshot.end_time snapshot) snap_duration,
                        target_id = target_id snapshot, regions = [fake_region]\<rparr>
                 in case n of
                      None \<Rightarrow> Inl TypeError
                    | Some k \<Rightarrow>
                        bind_err (add_fake_snapshots rest (Some (k + 1))) (\<lambda>(rest', n').
                        Inr ((tid, snaps @ [fake_snapshot]) # rest', n'))))
      else bind_err (add_fake_snapshots rest n) (\<lambda>(rest', n').
           Inr ((tid, snaps) # rest', n')))"

text \<open>
  \<open>write_damon_result\<close> for the three kinds of \<open>file_type\<close>. For \<open>'record'\<close> it returns the
  bytes written by \<open>write_damon_record\<close> with format version 2. The writer of the text
  form is not modelled: for \<open>'perf_script'\<close> the model returns the result handed to it.
\<close>

datatype written = Record "byte list" | PerfScript DAMONResult | Unsupported

definition write_damon_result :: "DAMONResult \<Rightarrow> string \<Rightarrow> py_error + written" where
  "write_damon_result result file_type =
     bind_err (add_fake_snapshots (target_snapshots result) (nr_snapshots result))
       (\<lambda>(ts, n).
     let result' = result\<lparr>target_snapshots := ts, nr_snapshots := n\<rparr>
     in if file_type = ''record''
        then bind_err (write_damon_record result' 2) (\<lambda>bs. Inr (Record bs))
        else if file_type = ''perf_script'' then Inr (PerfScript result')
        else Inr Unsupported)"

subsection \<open>Normalisation after decoding\<close>

text \<open>The test for the fake snapshot in \<open>parse_damon_result_for\<close>.\<close>

definition is_fake_region :: "DAMONRegion \<Rightarrow> bool" where
  "is_fake_region region =
     (start region = 0 \<and> end' region = 0 \<and> nr_accesses region = - 1 \<and>
      age region = Some (- 1))"

text \<open>
  The loop \<open>for snapshots in result.target_snapshots.values()\<close> at the end of
  \<open>parse_damon_result_for\<close>. It leaves the loop (\<open>break\<close>) at the first target with fewer
  than two snapshots. The local variable \<open>snapshot_time\<close> is assigned only while
  \<open>result.start_time\<close> is false; reading it unassigned raises \<open>UnboundLocalError\<close>. The
  function returns the snapshot lists and the result with its scalar attributes updated.
\<close>

fun normalize_loop ::
  "(int \<times> DAMONSnapshot list) list \<Rightarrow> DAMONResult \<Rightarrow> pynum option
     \<Rightarrow> py_error + ((int \<times> DAMONSnapshot list) list \<times> DAMONResult)"
where
  "normalize_loop [] result snapshot_time = Inr ([], result)"
| "normalize_loop ((tid, snapshots) # rest) result snapshot_time =
     (if length snapshots < 2 then Inr ((tid, snapshots) # rest, result)
      else
        let (result', snapshot_time') =
              (if \<not> py_truthy (DAMONResult.start_time result) then
                 (let t_end = DAMONSnapshot.end_time (last snapshots);
                      t_start = DAMONSnapshot.end_time (hd snapshots);
                      n = int (length snapshots) - 1;
                      st = PFloat (py_value (py_sub t_end t_start) / of_int n)
                  in (result\<lparr>DAMONResult.start_time := Some (py_sub t_start st),
                              DAMONResult.end_time := Some t_end,
                              nr_snapshots := Some (n + 1)\<rparr>,
                      Some st))
               else (result, snapshot_time))
        in case snapshot_time' of
             None \<Rightarrow> Inl UnboundLocalError
           | Some st \<Rightarrow>
               (let first = (hd snapshots)
                      \<lparr>DAMONSnapshot.start_time :=
                         Some (py_sub (DAMONSnapshot.end_time (hd snapshots)) st)\<rparr>;
                    snapshots' = first # tl snapshots;
                    snapshots'' =
                      (if length snapshots' = 2 \<and> length (regions (snapshots' ! 1)) = 1 \<and>
                          is_fake_region (hd (regions (snapshots' ! 1)))
                       then [first] else snapshots')
                in bind_err (normalize_loop rest result' (Some st)) (\<lambda>(rest', r).
                   Inr ((tid, snapshots'') # rest', r))))"

definition normalize_result :: "DAMONResult \<Rightarrow> py_error + DAMONResult" where
  "normalize_result result =
     bind_err (normalize_loop (target_snapshots result) result None) (\<lambda>(ts, r).
     Inr (r\<lparr>target_snapshots := ts\<rparr>))"

subsection \<open>Example files and results\<close>

text \<open>A result with one target that has a single snapshot: one region \<open>[100, 200)\<close> with
  access count 3.\<close>

definition single_snapshot_result :: DAMONResult where
  "single_snapshot_result =
     \<lparr>DAMONResult.start_time = Some (PInt 0), DAMONResult.end_time = Some (PInt 1000000000),
      nr_snapshots = Some 1,
      target_snapshots =
        [(1, [\<lparr>DAMONSnapshot.start_time = Some (PInt 0),
               DAMONSnapshot.end_time = PInt 1000000000, target_id = 1,
               regions = [\<lparr>start = 100, end' = 200, nr_accesses = 3, age = None\<rparr>]\<rparr>])]\<rparr>"

text \<open>
  A record file of format version 2 with two records: the first (at 1 s) has a snapshot of
  target 7 and a snapshot of target 8, the second (at 2 s) has a snapshot of target 8 only.
  \<open>two_target_result\<close> is what \<open>record_to_damon_result\<close> decodes from it.
\<close>

definition two_target_file :: "byte list" where
  "two_target_file =
     recfmt_mark @ le_bytes 4 2 @
     le_bytes 8 1 @ le_bytes 8 0 @ le_bytes 4 2 @
       le_bytes 8 7 @ le_bytes 4 1 @ le_bytes 8 4096 @ le_bytes 8 8192 @ le_bytes 4 5 @
       le_bytes 8 8 @ le_bytes 4 1 @ le_bytes 8 4096 @ le_bytes 8 8192 @ le_bytes 4 6 @
     le_bytes 8 2 @ le_bytes 8 0 @ le_bytes 4 1 @
       le_bytes 8 8 @ le_bytes 4 1 @ le_bytes 8 4096 @ le_bytes 8 8192 @ le_bytes 4 7"

definition two_target_result :: DAMONResult where
  "two_target_result =
     \<lparr>DAMONResult.start_time = None, DAMONResult.end_time = None, nr_snapshots = None,
      target_snapshots =
        [(7, [\<lparr>DAMONSnapshot.start_time = None, DAMONSnapshot.end_time = PInt 1000000000,
               target_id = 7,
               regions = [\<lparr>start = 4096, end' = 8192, nr_accesses = 5, age = None\<rparr>]\<rparr>]),
         (8, [\<lparr>DAMONSnapshot.start_time = None, DAMONSnapshot.end_time = PInt 1000000000,
               target_id = 8,
               regions = [\<lparr>start = 4096, end' = 8192, nr_accesses = 6, age = None\<rparr>]\<rparr>,
              \<lparr>DAMONSnapshot.start_time = Some (PInt 1000000000),
               DAMONSnapshot.end_time = PInt 2000000000, target_id = 8,
               regions = [\<lparr>start = 4096, end' = 8192, nr_accesses = 7, age = None\<rparr>]\<rparr>])]\<rparr>"

text \<open>A file that holds the header only, and a headerless file with one empty record.\<close>

definition version_2_file :: "byte list" where
  "version_2_file = recfmt_mark @ le_bytes 4 2"

definition headerless_file :: "byte list" where
  "headerless_file = le_bytes 8 1 @ le_bytes 8 0 @ le_bytes 4 0"

section \<open>The text record format\<close>

subsection \<open>Strings\<close>

text \<open>
  A line is a string of ASCII characters. \<open>py_isspace\<close> is the whitespace of
  \<open>str.strip()\<close> and \<open>str.split()\<close> among them: the characters 9 to 13, 28 to 31, and the
  blank.
\<close>

definition py_isspace :: "char \<Rightarrow> bool" where
  "py_isspace c =
     (let k = (of_char c :: nat) in (9 \<le> k \<and> k \<le> 13) \<or> (28 \<le> k \<and> k \<le> 31) \<or> k = 32)"

definition py_strip :: "string \<Rightarrow> string" where
  "py_strip s = rev (dropWhile py_isspace (rev (dropWhile py_isspace s)))"

text \<open>\<open>s.split()\<close>: the maximal runs of characters that are not whitespace; \<open>cur\<close> is the
  run being read.\<close>

fun split_ws :: "string \<Rightarrow> string \<Rightarrow> string list" where
  "split_ws cur [] = (if cur = [] then [] else [cur])"
| "split_ws cur (c # cs) =
     (if py_isspace c then (if cur = [] then split_ws [] cs else cur # split_ws [] cs)
      else split_ws (cur @ [c]) cs)"

definition py_split :: "string \<Rightarrow> string list" where
  "py_split s = split_ws [] s"

text \<open>\<open>s.split(sep)\<close> for a separator of one character.\<close>

fun split_sep :: "string \<Rightarrow> char \<Rightarrow> string \<Rightarrow> string list" where
  "split_sep cur sep [] = [cur]"
| "split_sep cur sep (c # cs) =
     (if c = sep then cur # split_sep [] sep cs else split_sep (cur @ [c]) sep cs)"

definition py_split_on :: "char \<Rightarrow> string \<Rightarrow> string list" where
  "py_split_on sep s = split_sep [] sep s"

text \<open>\<open>xs[i]\<close> for an index that is not negative.\<close>

definition py_index :: "'a list \<Rightarrow> nat \<Rightarrow> py_error + 'a" where
  "py_index xs i = (if i < length xs then Inr (xs ! i) else Inl IndexError)"

subsection \<open>Conversions of the language\<close>

text \<open>
  The two conversions from a string that the decoder uses are built into Python; the model
  takes them as a parameter: \<open>time_ns_of s\<close> is \<open>int(float(s) * 1000000000)\<close> and
  \<open>int_of s\<close> is \<open>int(s)\<close>, each with the exception it raises.
\<close>

record py_builtins =
  time_ns_of :: "string \<Rightarrow> py_error + int"
  int_of :: "string \<Rightarrow> py_error + int"

subsection \<open>Decoding: \<open>perf_script_to_damon_result\<close>\<close>

text \<open>The local variables of \<open>perf_script_to_damon_result\<close> that live across lines.\<close>

record perf_state =
  result :: "DAMONResult option"
  nr_read_regions :: int
  parse_start_time :: "int option"

definition perf_state_init :: perf_state where
  "perf_state_init = \<lparr>result = None, nr_read_regions = 0, parse_start_time = None\<rparr>"

text \<open>\<open>fields = line.strip().split()\<close>, after \<open>line = line.strip()\<close>.\<close>

definition line_fields :: "string \<Rightarrow> string list" where
  "line_fields line = py_split (py_strip (py_strip line))"

text \<open>\<open>if not target_id in result.target_snapshots: result.target_snapshots[target_id] = []\<close>.\<close>

definition ensure_target ::
  "int \<Rightarrow> (int \<times> DAMONSnapshot list) list \<Rightarrow> (int \<times> DAMONSnapshot list) list" where
  "ensure_target tid ts = (if map_of ts tid = None then ts @ [(tid, [])] else ts)"

text \<open>\<open>target_snapshots[-1].regions.append(region)\<close> for the snapshot list of one target.\<close>

fun append_region ::
  "int \<Rightarrow> DAMONRegion \<Rightarrow> (int \<times> DAMONSnapshot list) list
     \<Rightarrow> (int \<times> DAMONSnapshot list) list"
where
  "append_region tid r [] = []"
| "append_region tid r ((k, v) # kvs) =
     (if k = tid
      then (k, butlast v @ [(last v)\<lparr>regions := regions (last v) @ [r]\<rparr>]) # kvs
      else (k, v) # append_region tid r kvs)"

text \<open>
  The body of the loop \<open>for line in f\<close>. It returns whether the loop is left (\<open>break\<close>) and
  the new state. A line with a number of fields other than 9 or 10, or with a fifth field
  other than the marker, is passed over (\<open>continue\<close>) before anything is parsed.
\<close>

definition perf_script_line ::
  "py_builtins \<Rightarrow> int option \<Rightarrow> string \<Rightarrow> perf_state \<Rightarrow> py_error + (bool \<times> perf_state)"
where
  "perf_script_line B max_secs line st =
     (let fields = line_fields line
      in if length fields \<notin> {9, 10} then Inr (False, st)
         else if fields ! 4 \<noteq> ''damon:damon_aggregated:'' then Inr (False, st)
         else
           bind_err (time_ns_of B (butlast (fields ! 3))) (\<lambda>t_end.
           let res = (case result st of None \<Rightarrow> DAMONResult_init | Some r \<Rightarrow> r)
           in if parse_start_time st \<noteq> None \<and> max_secs \<noteq> None \<and>
                 t_end - (the (parse_start_time st)) > (the max_secs) * 1000000000
              then Inr (True, st\<lparr>result := Some res\<rparr>)
              else
                bind_err (py_index (py_split_on CHR ''='' (fields ! 5)) 1) (\<lambda>tid_text.
                bind_err (int_of B tid_text) (\<lambda>tid.
                let ts1 = ensure_target tid (target_snapshots res);
                    t_start = next_start_time ts1 tid
                in
                bind_err (py_index (py_split_on CHR ''='' (fields ! 6)) 1) (\<lambda>nr_text.
                bind_err (int_of B nr_text) (\<lambda>nr_regions.
                bind_err (map_err (int_of B) (py_split_on CHR ''-'' (butlast (fields ! 7))))
                  (\<lambda>addrs.
                bind_err (int_of B (fields ! 8)) (\<lambda>nr_acc.
                bind_err (if length fields = 10
                          then bind_err (int_of B (fields ! 9)) (\<lambda>a. Inr (Some a))
                          else Inr None) (\<lambda>age_arg.
                let ts2 = (if nr_read_regions st = 0
                           then append_snapshot tid
                                  \<lparr>DAMONSnapshot.start_time = t_start,
                                   DAMONSnapshot.end_time = PInt t_end, target_id = tid,
                                   regions = []\<rparr> ts1
                           else ts1)
                in if map_of ts2 tid = Some [] then Inl IndexError
                   else
                     bind_err (py_index addrs 0) (\<lambda>a0.
                     bind_err (py_index addrs 1) (\<lambda>a1.
                     let ts3 = append_region tid
                                 \<lparr>start = a0, end' = a1, nr_accesses = nr_acc,
                                  age = age_arg\<rparr> ts2;
                         n = nr_read_regions st + 1
                     in Inr (False,
                          \<lparr>result = Some (res\<lparr>target_snapshots := ts3\<rparr>),
                           nr_read_regions = (if n = nr_regions then 0 else n),
                           parse_start_time =
                             (if parse_start_time st = None then Some t_end
                              else parse_start_time st)\<rparr>))))))))))))"

fun perf_script_loop ::
  "py_builtins \<Rightarrow> int option \<Rightarrow> string list \<Rightarrow> perf_state \<Rightarrow> py_error + perf_state"
where
  "perf_script_loop B max_secs [] st = Inr st"
| "perf_script_loop B max_secs (line # rest) st =
     bind_err (perf_script_line B max_secs line st) (\<lambda>(brk, st').
     if brk then Inr st' else perf_script_loop B max_secs rest st')"

text \<open>
  \<open>perf_script_to_damon_result\<close>; \<open>lines\<close> are the lines that the iteration over the file
  yields. The function returns \<open>result\<close>, which is \<open>None\<close> when no line was decoded.
\<close>

definition perf_script_to_damon_result ::
  "py_builtins \<Rightarrow> string list \<Rightarrow> int option \<Rightarrow> py_error + DAMONResult option" where
  "perf_script_to_damon_result B lines max_secs =
     bind_err (perf_script_loop B max_secs lines perf_state_init) (\<lambda>st. Inr (result st))"

subsection \<open>An instance of the conversions, and example lines\<close>

text \<open>
  An instance of the parameter for evaluation: \<open>int(s)\<close> for a numeral of decimal digits,
  and the time stamp for a text of the form seconds, a dot, six digits.
\<close>

definition sample_int_of :: "string \<Rightarrow> py_error + int" where
  "sample_int_of s =
     (if s = [] then Inl ValueError
      else case digits_of 0 s of None \<Rightarrow> Inl ValueError | Some n \<Rightarrow> Inr n)"

definition sample_time_ns_of :: "string \<Rightarrow> py_error + int" where
  "sample_time_ns_of s =
     (case py_split_on CHR ''.'' s of
        [secs, usecs] \<Rightarrow>
          if length usecs \<noteq> 6 then Inl ValueError
          else bind_err (sample_int_of secs) (\<lambda>a.
               bind_err (sample_int_of usecs) (\<lambda>b. Inr ((a * 1000000 + b) * 1000)))
      | _ \<Rightarrow> Inl ValueError)"

definition sample_builtins :: py_builtins where
  "sample_builtins = \<lparr>time_ns_of = sample_time_ns_of, int_of = sample_int_of\<rparr>"

text \<open>A well-formed line of 10 fields, and a line of 8 fields (the access count and the
  age are missing).\<close>

definition line_10_fields :: string where
  "line_10_fields =
     ''kdamond.0  4452 [000] 82877.315633: damon:damon_aggregated: '' @
     ''target_id=42 nr_regions=1 4096-8192: 5 3''"

definition line_8_fields :: string where
  "line_8_fields =
     ''kdamond.0  4452 [000] 82877.415633: damon:damon_aggregated: '' @
     ''target_id=42 nr_regions=1 4096-8192:''"

chapter \<open>Properties\<close>

section \<open>Access patterns and schemes: results\<close>

lemma bind_err_simps [simp]:
  "bind_err (Inl e) f = Inl e"
  "bind_err (Inr x) f = f x"
  by (simp_all add: bind_err_def)

lemma py_int_of_int [simp]: "py_int (of_int n) = n"
  by (simp add: py_int_def)

lemma convert_for_units_total:
  assumes "0 < sample ivs" "0 < aggr ivs"
  shows "\<exists>q. convert_for_units p u1 u2 ivs = Inr q \<and>
             nr_accesses_unit q = u1 \<and> age_unit q = u2"
  using assms
  by (cases u1; cases u2)
     (auto simp: convert_for_units_def convert_nr_accesses_unit_def convert_age_unit_def
        Let_def)

lemma convert_for_units_same:
  "nr_accesses_unit p = u1 \<Longrightarrow> age_unit p = u2 \<Longrightarrow> convert_for_units p u1 u2 ivs = Inr p"
  by (simp add: convert_for_units_def convert_nr_accesses_unit_def convert_age_unit_def)

lemma DamosAccessPattern_eq_refl [simp]: "DamosAccessPattern_eq p p"
  by (simp add: DamosAccessPattern_eq_def)

lemma effectively_equal_refl:
  assumes "0 < sample ivs" "0 < aggr ivs"
  shows "effectively_equal p p ivs = Inr True"
  using convert_for_units_total [OF assms, of p unit_sample_intervals unit_aggr_intervals]
  by (auto simp: effectively_equal_def converted_for_units_def)

lemma effectively_equal_converted:
  assumes "0 < sample ivs" "0 < aggr ivs"
    and "convert_for_units p unit_sample_intervals unit_aggr_intervals ivs = Inr q"
  shows "effectively_equal p q ivs = Inr True"
proof -
  from convert_for_units_total [OF assms(1,2), of p unit_sample_intervals unit_aggr_intervals]
    assms(3)
  have "nr_accesses_unit q = unit_sample_intervals" "age_unit q = unit_aggr_intervals"
    by auto
  then have "convert_for_units q unit_sample_intervals unit_aggr_intervals ivs = Inr q"
    by (rule convert_for_units_same)
  with assms(3) show ?thesis
    by (simp add: effectively_equal_def converted_for_units_def)
qed


lemma DamosFilter_eq_refl: "list_all2 (DamosFilter_eq F) fs fs"
  by (simp add: list_all2_same DamosFilter_eq_def)

lemma Damos_effectively_equal_pattern:
  assumes "effectively_equal (access_pattern d) p ivs = Inr True"
  shows "Damos_effectively_equal F d (d\<lparr>access_pattern := p\<rparr>) ivs = Inr True"
  using assms
  by (simp add: Damos_effectively_equal_def DamosQuotas_eq_def DamosWatermarks_eq_def
        DamosFilter_eq_refl)

text \<open>
  Claim C6. For every interval set with positive sample and aggregation intervals, the
  default-constructed scheme \<open>d = Damos()\<close> is classified as monitoring-only by
  \<open>is_monitoring_scheme\<close>, and it still is after its access pattern has been converted
  in place to sample intervals and aggregation intervals. This holds for every formatting
  module \<open>F\<close> under which \<open>Damos()\<close> can be built at all.
\<close>

theorem default_scheme_is_monitoring:
  assumes "0 < sample ivs" "0 < aggr ivs" "Damos_default F = Inr d"
  shows "is_monitoring_scheme F d ivs = Inr True \<and>
         (\<exists>p. convert_for_units (access_pattern d) unit_sample_intervals unit_aggr_intervals
                 ivs = Inr p \<and>
              is_monitoring_scheme F (d\<lparr>access_pattern := p\<rparr>) ivs = Inr True)"
proof -
  obtain p where p:
    "convert_for_units (access_pattern d) unit_sample_intervals unit_aggr_intervals ivs
       = Inr p"
    using convert_for_units_total [OF assms(1,2)] by blast
  have "Damos_effectively_equal F d (d\<lparr>access_pattern := access_pattern d\<rparr>) ivs
          = Inr True"
    by (rule Damos_effectively_equal_pattern) (rule effectively_equal_refl [OF assms(1,2)])
  moreover have "Damos_effectively_equal F d (d\<lparr>access_pattern := p\<rparr>) ivs = Inr True"
    by (rule Damos_effectively_equal_pattern)
       (rule effectively_equal_converted [OF assms(1,2) p])
  ultimately show ?thesis
    using p assms(3) by (simp add: is_monitoring_scheme_def)
qed

theorem default_scheme_is_monitoring_witness:
  "0 < sample intervals_5ms_100ms \<and> 0 < aggr intervals_5ms_100ms \<and>
   Damos_default fmt_sample = Inr default_scheme \<and>
   is_monitoring_scheme fmt_sample default_scheme intervals_5ms_100ms = Inr True \<and>
   (\<exists>p. convert_for_units (access_pattern default_scheme) unit_sample_intervals
           unit_aggr_intervals intervals_5ms_100ms = Inr p \<and>
        is_monitoring_scheme fmt_sample (default_scheme\<lparr>access_pattern := p\<rparr>)
          intervals_5ms_100ms = Inr True)"
proof -
  have pos: "0 < sample intervals_5ms_100ms" "0 < aggr intervals_5ms_100ms"
    by (simp_all add: intervals_5ms_100ms_def)
  have d: "Damos_default fmt_sample = Inr default_scheme"
    by code_simp
  show ?thesis
    using pos d default_scheme_is_monitoring [OF pos d] by simp
qed

section \<open>Access patterns under the arithmetic of the interpreter: results\<close>








lemma exact_arith_agrees:
  "convert_for_units_arith exact_arith p u1 u2 ivs = convert_for_units p u1 u2 ivs"
  "effectively_equal_arith exact_arith p q ivs = effectively_equal p q ivs"
  "effective_equality_law_arith exact_arith p u1 u2 ivs = effective_equality_law p u1 u2 ivs"
proof -
  show conv: "convert_for_units_arith exact_arith p u1 u2 ivs = convert_for_units p u1 u2 ivs"
    for p u1 u2
    by (cases u1; cases u2; cases "nr_accesses_unit p"; cases "age_unit p")
       (auto simp: convert_for_units_arith_def convert_for_units_def
          convert_nr_accesses_unit_arith_def convert_nr_accesses_unit_def
          convert_age_unit_arith_def convert_age_unit_def exact_arith_def Let_def)
  show eq: "effectively_equal_arith exact_arith p q ivs = effectively_equal p q ivs" for p q
    by (simp add: effectively_equal_arith_def effectively_equal_def
          converted_for_units_arith_def converted_for_units_def conv)
  show "effective_equality_law_arith exact_arith p u1 u2 ivs
          = effective_equality_law p u1 u2 ivs"
    by (simp add: effective_equality_law_arith_def effective_equality_law_def
          converted_for_units_arith_def converted_for_units_def conv eq
          cong: sum.case_cong)
qed



section \<open>The round trip through the key-value form: results\<close>









subsection \<open>The leaves\<close>









subsection \<open>The values with parts\<close>





subsection \<open>What \<open>kvpairs_to_Damos\<close> never returns\<close>






section \<open>The binary record format: results\<close>

lemma le_value_bounds: "0 \<le> le_value bs \<and> le_value bs < 256 ^ length bs"
proof (induction bs)
  case Nil
  show ?case by (simp add: le_value_def)
next
  case (Cons b bs)
  have "uint b < 256" using uint_bounded [of b] by simp
  moreover have "0 \<le> uint b" by simp
  moreover have "le_value (b # bs) = uint b + 256 * le_value bs"
    by (simp add: le_value_def)
  ultimately show ?case using Cons by simp
qed

lemma unpack_signed_range:
  assumes "unpack_signed 4 bs = Inr v"
  shows "- (2 ^ 31) \<le> v \<and> v < 2 ^ 31"
proof -
  from assms have len: "length bs = 4"
    by (simp add: unpack_signed_def split: if_splits)
  with le_value_bounds [of bs] have "0 \<le> le_value bs" "le_value bs < 4294967296"
    by simp_all
  with assms len show ?thesis
    by (auto simp: unpack_signed_def Let_def split: if_splits)
qed

lemma decode_records_version:
  "decode_records f ver m = Inr (r, f2, v2, e) \<Longrightarrow> v2 = Some ver \<and> e = None \<and> r \<noteq> None"
  by (auto simp: decode_records_def bind_err_def split: if_splits sum.splits)

text \<open>
  Claim C9. When \<open>record_to_damon_result\<close> opens the file itself (\<open>f\<close> is \<open>None\<close>) and
  the first 16 bytes are the magic literal, the next 4 bytes are unpacked as a signed 32-bit
  integer (it raises when fewer than 4 bytes follow), that integer is the format version
  and decoding goes on at offset 20. When the first 16 bytes are not the magic literal, the
  version is 0 and the whole file is decoded from offset 0. When it is handed an open
  stream and no format version (\<open>None\<close>, or 0, which \<open>not fmt_version\<close> does not tell from
  \<open>None\<close>), it returns \<open>(None, None, None, 'fmt_version is not given')\<close>: an error value
  and no result. A decoding that returns hands back the version it was started with.
\<close>

theorem record_header_version:
  "(take 16 file = recfmt_mark \<longrightarrow>
      (case unpack_signed 4 (take 4 (drop 16 file)) of
         Inl e \<Rightarrow> record_to_damon_result file None v m = Inl e
       | Inr ver \<Rightarrow>
           - (2 ^ 31) \<le> ver \<and> ver < 2 ^ 31 \<and>
           record_to_damon_result file None v m =
             decode_records \<lparr>data = file, pos = 20, closed = False\<rparr> ver m)) \<and>
   (take 16 file' \<noteq> recfmt_mark \<longrightarrow>
      record_to_damon_result file' None v m =
        decode_records \<lparr>data = file', pos = 0, closed = False\<rparr> 0 m) \<and>
   (v' = None \<or> v' = Some 0 \<longrightarrow>
      record_to_damon_result file'' (Some s) v' m =
        Inr (None, None, None, Some ''fmt_version is not given'')) \<and>
   (\<forall>r f2 v2 e. decode_records f ver' m = Inr (r, f2, v2, e) \<longrightarrow>
      v2 = Some ver' \<and> e = None \<and> r \<noteq> None)"
  using decode_records_version [of f ver' m]
  by (auto simp: record_to_damon_result_def Let_def dest: unpack_signed_range
        split: sum.splits)

theorem record_header_version_witness:
  "take 16 version_2_file = recfmt_mark \<and>
   record_to_damon_result version_2_file None None None =
     decode_records \<lparr>data = version_2_file, pos = 20, closed = False\<rparr> 2 None \<and>
   take 16 headerless_file \<noteq> recfmt_mark \<and>
   record_to_damon_result headerless_file None None None =
     decode_records \<lparr>data = headerless_file, pos = 0, closed = False\<rparr> 0 None \<and>
   record_to_damon_result headerless_file
       (Some \<lparr>data = headerless_file, pos = 0, closed = False\<rparr>) None None =
     Inr (None, None, None, Some ''fmt_version is not given'') \<and>
   decode_records \<lparr>data = headerless_file, pos = 0, closed = False\<rparr> 0 None =
     Inr (Some DAMONResult_init,
          Some \<lparr>data = headerless_file, pos = 20, closed = True\<rparr>, Some 0, None)"
proof -
  have h1: "take 16 version_2_file = recfmt_mark"
    by code_simp
  have h2: "take 16 headerless_file \<noteq> recfmt_mark"
    by code_simp
  have h3: "unpack_signed 4 (take 4 (drop 16 version_2_file)) = Inr 2"
    by code_simp
  have h4: "decode_records \<lparr>data = headerless_file, pos = 0, closed = False\<rparr> 0 None =
     Inr (Some DAMONResult_init,
          Some \<lparr>data = headerless_file, pos = 20, closed = True\<rparr>, Some 0, None)"
    by code_simp
  from record_header_version
    [of version_2_file None None headerless_file None headerless_file
        "\<lparr>data = headerless_file, pos = 0, closed = False\<rparr>"
        "\<lparr>data = headerless_file, pos = 0, closed = False\<rparr>" 0]
    h1 h2 h3 h4
  show ?thesis by simp
qed

lemma read_regions_no_age:
  "read_regions n bs p = Inr (rs, p') \<Longrightarrow> \<forall>r \<in> set rs. age r = None"
proof (induction n arbitrary: p rs p')
  case 0
  then show ?case by simp
next
  case (Suc n)
  from Suc.prems show ?case
    by (auto simp: bind_err_def split: sum.splits dest!: Suc.IH)
qed

lemma is_fake_region_age: "is_fake_region r \<Longrightarrow> age r = Some (- 1)"
  by (simp add: is_fake_region_def)

text \<open>
  Claim C2, evaluated on the code. The result has one target with a single snapshot (the
  region \<open>[100, 200)\<close> with access count 3). \<open>write_damon_result\<close> appends the fake
  snapshot and \<open>write_damon_record\<close> then raises \<open>struct.error\<close>: the access count \<open>-1\<close> of
  the fake region cannot be packed with the unsigned format \<open>I\<close>. No file is produced that
  could be decoded. (Were it produced, \<open>read_regions_no_age\<close> shows that a decoded region
  has no age, so the test for the fake snapshot, which asks for the age \<open>-1\<close>, could not
  hold.)
\<close>

theorem write_single_snapshot_raises:
  "write_damon_result single_snapshot_result ''record'' = Inl StructError"
  by code_simp

lemma two_target_file_decodes:
  "record_to_damon_result two_target_file None None None =
     Inr (Some two_target_result,
          Some \<lparr>data = two_target_file, pos = length two_target_file, closed = True\<rparr>,
          Some 2, None)"
  by code_simp

lemma two_target_result_unchanged:
  "normalize_result two_target_result = Inr two_target_result"
  by code_simp

text \<open>
  Claim C7, evaluated on the code. \<open>two_target_result\<close> is decoded from a record file;
  target 7 has one snapshot, target 8 has two. The normalisation leaves the loop at target
  7 (\<open>break\<close>) and returns the result as it is: the first snapshot of target 8 keeps the
  start time \<open>None\<close>, where the claim has the end time minus the mean spacing, 0.
\<close>

theorem normalization_stops_at_short_target:
  "record_to_damon_result two_target_file None None None =
     Inr (Some two_target_result,
          Some \<lparr>data = two_target_file, pos = length two_target_file, closed = True\<rparr>,
          Some 2, None) \<and>
   normalize_result two_target_result = Inr two_target_result \<and>
   DAMONSnapshot.start_time (hd (snd (target_snapshots two_target_result ! 1))) = None"
  by (simp add: two_target_file_decodes two_target_result_unchanged)
     (simp add: two_target_result_def)

section \<open>The text record format: results\<close>

lemma split_ws_dropWhile: "split_ws [] (dropWhile py_isspace s) = split_ws [] s"
  by (induction s) auto

lemma split_ws_trailing:
  "\<forall>c \<in> set ws. py_isspace c \<Longrightarrow> split_ws cur (s @ ws) = split_ws cur s"
proof (induction s arbitrary: cur)
  case Nil
  then show ?case by (induction ws arbitrary: cur) auto
next
  case (Cons c s)
  then show ?case by simp
qed

lemma py_split_strip: "py_split (py_strip s) = py_split s"
proof -
  let ?t = "dropWhile py_isspace s"
  have "?t = rev (dropWhile py_isspace (rev ?t)) @ rev (takeWhile py_isspace (rev ?t))"
    by (metis rev_append rev_rev_ident takeWhile_dropWhile_id)
  moreover have "\<forall>c \<in> set (rev (takeWhile py_isspace (rev ?t))). py_isspace c"
    by (auto dest: set_takeWhileD)
  ultimately have "split_ws [] (rev (dropWhile py_isspace (rev ?t))) = split_ws [] ?t"
    using split_ws_trailing [of "rev (takeWhile py_isspace (rev ?t))" "[]"
            "rev (dropWhile py_isspace (rev ?t))"]
    by simp
  then show ?thesis
    by (simp add: py_split_def py_strip_def split_ws_dropWhile)
qed

lemma line_fields_split: "line_fields line = py_split line"
  by (simp add: line_fields_def py_split_strip)


lemma skipped_line_step:
  assumes "length (py_split line) \<notin> {9, 10} \<or> py_split line ! 4 \<noteq> ''damon:damon_aggregated:''"
  shows "perf_script_line B m line st = Inr (False, st)"
  using assms by (auto simp: perf_script_line_def line_fields_split Let_def)


lemma perf_script_loop_skip:
  assumes "\<And>st. perf_script_line B m line st = Inr (False, st)"
  shows "perf_script_loop B m (pre @ line # post) st = perf_script_loop B m (pre @ post) st"
proof (induction pre arbitrary: st)
  case Nil
  show ?case by (simp add: assms)
next
  case (Cons l pre)
  show ?case
  proof (cases "perf_script_line B m l st")
    case (Inl e)
    then show ?thesis by simp
  next
    case (Inr r)
    then show ?thesis by (cases r) (simp add: Cons.IH)
  qed
qed

text \<open>
  Claim C8. A line whose number of whitespace-separated fields is not 9 or 10, or whose
  fifth field is not \<open>damon:damon_aggregated:\<close>, is passed over by the text decoder
  without an exception and with the state unchanged, whatever the conversions of the
  language do; and the decoder returns the same for a file with such a line (anywhere in
  it) as for the file without the line. In particular a line of 8 fields adds no region
  and no snapshot.
\<close>

theorem malformed_line_skipped:
  assumes "length (py_split line) \<notin> {9, 10} \<or>
           py_split line ! 4 \<noteq> ''damon:damon_aggregated:''"
  shows "perf_script_line B m line st = Inr (False, st) \<and>
         perf_script_to_damon_result B (pre @ line # post) m =
           perf_script_to_damon_result B (pre @ post) m"
  using skipped_line_step [OF assms] perf_script_loop_skip [of B m line pre post]
  by (simp add: perf_script_to_damon_result_def)

lemma line_8_fields_count: "length (py_split line_8_fields) = 8"
  by code_simp

lemma line_10_fields_decoded:
  "perf_script_to_damon_result sample_builtins [line_10_fields] None =
     Inr (Some (DAMONResult_init\<lparr>target_snapshots :=
       [(42, [\<lparr>DAMONSnapshot.start_time = None,
               DAMONSnapshot.end_time = PInt 82877315633000, target_id = 42,
               regions = [\<lparr>start = 4096, end' = 8192, nr_accesses = 5,
                           age = Some 3\<rparr>]\<rparr>])]\<rparr>))"
  by code_simp

theorem malformed_line_skipped_witness:
  "length (py_split line_8_fields) \<notin> {9, 10} \<and>
   perf_script_line sample_builtins None line_8_fields perf_state_init =
     Inr (False, perf_state_init) \<and>
   perf_script_to_damon_result sample_builtins ([line_10_fields] @ line_8_fields # []) None =
     Inr (Some (DAMONResult_init\<lparr>target_snapshots :=
       [(42, [\<lparr>DAMONSnapshot.start_time = None,
               DAMONSnapshot.end_time = PInt 82877315633000, target_id = 42,
               regions = [\<lparr>start = 4096, end' = 8192, nr_accesses = 5,
                           age = Some 3\<rparr>]\<rparr>])]\<rparr>))"
proof -
  have h: "length (py_split line_8_fields) \<notin> {9, 10} \<or>
           py_split line_8_fields ! 4 \<noteq> ''damon:damon_aggregated:''"
    by (simp add: line_8_fields_count)
  from malformed_line_skipped
         [OF h, of sample_builtins None perf_state_init "[line_10_fields]" "[]"]
  show ?thesis
    by (simp add: line_8_fields_count line_10_fields_decoded)
qed

section \<open>Snapshot aggregation: results\<close>

lemma regions_intersect_iff:
  "regions_intersect a b = (start a < end' b \<and> start b < end' a)"
  by (auto simp: regions_intersect_def)

lemma pairwise_disjoint_snoc:
  "pairwise_disjoint (rs @ [x]) =
     (pairwise_disjoint rs \<and> (\<forall>r \<in> set rs. \<not> regions_intersect r x))"
  by (induction rs) auto

lemma fold_fst_invariant:
  assumes "\<And>x st. x \<in> set xs \<Longrightarrow> P (fst st) \<Longrightarrow> P (fst (f x st))"
    and "P (fst st0)"
  shows "P (fst (fold f xs st0))"
  using assms by (induction xs arbitrary: st0) auto

lemma add_region_disjoint:
  "pairwise_disjoint regs \<Longrightarrow> pairwise_disjoint (fst (add_region regs region m))"
proof (induction regs region m rule: add_region.induct)
  case (1 regs region m)
  show ?case
  proof (cases "first_intersecting regs region")
    case None
    with "1.prems" show ?thesis
      by (simp add: add_region.simps [of regs region m] pairwise_disjoint_snoc
            first_intersecting_None)
  next
    case (Some i)
    have "pairwise_disjoint
            (fst (fold (\<lambda>new_r st. add_region (fst st) new_r (snd st))
                    (remainders (regs ! i) region)
                    (regs, m(i \<mapsto> max (case m i of None \<Rightarrow> 0 | Some v \<Rightarrow> v)
                                      (nr_accesses region)))))"
      by (rule fold_fst_invariant) (use Some "1.prems" in \<open>auto intro: "1.IH"\<close>)
    with Some show ?thesis
      by (simp add: add_region.simps [of regs region m] Let_def)
  qed
qed

lemma no_intersect_geometry:
  "(\<forall>a \<in> set xs. \<not> regions_intersect x a) =
     (\<forall>g \<in> set (map (\<lambda>r. (start r, end' r)) xs). \<not> (fst g < end' x \<and> start x < snd g))"
  by (auto simp: regions_intersect_def)

lemma pairwise_disjoint_geometry:
  "map (\<lambda>r. (start r, end' r)) xs = map (\<lambda>r. (start r, end' r)) ys \<Longrightarrow>
     pairwise_disjoint xs = pairwise_disjoint ys"
proof (induction xs arbitrary: ys)
  case Nil
  then show ?case by simp
next
  case (Cons x xs)
  then obtain y ys' where ys: "ys = y # ys'"
    and xy: "start x = start y" "end' x = end' y"
    and rest: "map (\<lambda>r. (start r, end' r)) xs = map (\<lambda>r. (start r, end' r)) ys'"
    by (cases ys) auto
  have "(\<forall>a \<in> set xs. \<not> regions_intersect x a) = (\<forall>b \<in> set ys'. \<not> regions_intersect y b)"
    unfolding no_intersect_geometry rest xy ..
  with Cons.IH [OF rest] ys show ?case by simp
qed

lemma apply_pending_geometry:
  "map (\<lambda>r. (start r, end' r)) (apply_pending regs m) = map (\<lambda>r. (start r, end' r)) regs"
  by (rule nth_equalityI) (auto simp: apply_pending_def split: option.splits)

lemma aggregate_pass_disjoint:
  assumes "pairwise_disjoint acc"
  shows "pairwise_disjoint (aggregate_pass snapshot acc)"
proof -
  have "pairwise_disjoint
          (fst (fold (\<lambda>region st. add_region (fst st) region (snd st))
                  (regions snapshot) (acc, Map.empty)))"
    by (rule fold_fst_invariant) (use assms in \<open>auto intro: add_region_disjoint\<close>)
  then show ?thesis
    using pairwise_disjoint_geometry [OF apply_pending_geometry]
    by (simp add: aggregate_pass_def split_def Let_def)
qed

lemma fold_aggregate_pass_disjoint:
  "pairwise_disjoint acc \<Longrightarrow> pairwise_disjoint (fold aggregate_pass snapshots acc)"
  by (induction snapshots arbitrary: acc) (auto intro: aggregate_pass_disjoint)

subsection \<open>The depth of the recursion\<close>












text \<open>
  Claim C3. Aggregating snapshot A (one region \<open>[0,10)\<close> with access count 5) and snapshot
  B (regions \<open>[0,5)\<close> with count 2 and \<open>[5,10)\<close> with count 4) returns a snapshot whose
  region list is the single region \<open>[0,10)\<close> with access count 9: both regions of B fall
  into the region of A, their counts are combined with \<open>max\<close> to 4, and 4 is added once.
\<close>

theorem aggregate_example_count_9:
  "aggregate_snapshots [snapshot_A, snapshot_B] =
     Inr \<lparr>DAMONSnapshot.start_time = Some (PInt 0), DAMONSnapshot.end_time = PInt 200, target_id = 1,
          regions = [\<lparr>start = 0, end' = 10, nr_accesses = 9, age = None\<rparr>]\<rparr>"
  by (simp add: aggregate_snapshots_def aggregate_pass_def snapshot_A_def snapshot_B_def
        apply_pending_def regions_intersect_def remainders_def add_region.simps)




lemma aggregate_recursion_error:
  "aggregate_snapshots_frames 5 [snapshot_three, snapshot_over_three] = Inl RecursionError"
  by code_simp

text \<open>
  Claim C10. The accumulator of the aggregator is pairwise disjoint: \<open>add_region\<close> keeps a
  pairwise disjoint region list pairwise disjoint, for every inserted region and every
  pending dict, and the region list of the snapshot that \<open>aggregate_snapshots\<close> returns
  is pairwise disjoint. Two regions overlap iff the start of each is below the end of the
  other (\<open>regions_intersect_iff\<close>).
\<close>

theorem aggregate_regions_disjoint:
  "(pairwise_disjoint regs \<longrightarrow> pairwise_disjoint (fst (add_region regs region m))) \<and>
   (\<forall>s. aggregate_snapshots snapshots = Inr s \<longrightarrow> pairwise_disjoint (regions s))"
  using add_region_disjoint [of regs region m]
    fold_aggregate_pass_disjoint [of "[]" snapshots]
  by (auto simp: aggregate_snapshots_def Let_def split: if_splits)

theorem aggregate_regions_disjoint_witness:
  "pairwise_disjoint [\<lparr>start = 0, end' = 10, nr_accesses = 5, age = None\<rparr>] \<and>
   pairwise_disjoint
     (fst (add_region [\<lparr>start = 0, end' = 10, nr_accesses = 5, age = None\<rparr>]
             \<lparr>start = 5, end' = 15, nr_accesses = 2, age = None\<rparr> Map.empty)) \<and>
   (\<exists>s. aggregate_snapshots [snapshot_A, snapshot_B] = Inr s \<and> pairwise_disjoint (regions s))"
  using aggregate_regions_disjoint
    [of "[\<lparr>start = 0, end' = 10, nr_accesses = 5, age = None\<rparr>]"
        "\<lparr>start = 5, end' = 15, nr_accesses = 2, age = None\<rparr>" Map.empty
        "[snapshot_A, snapshot_B]"]
  by (simp add: aggregate_snapshots_def snapshot_A_def snapshot_B_def)

end
